theory Spec2Isabelle
  imports Complex_Main "HOL-Library.Char_ord" "HOL-Library.List_Lexorder"
begin

section \<open>Numbers and exceptions\<close>

text \<open>
  The notebooks compute with NumPy \<open>float64\<close> values.  A division by zero does not raise in
  NumPy or pandas, it yields \<open>inf\<close>, \<open>-inf\<close> or \<open>nan\<close>.  These three are collapsed into the
  single value \<open>NonFinite\<close>, which the arithmetic of the notebooks propagates.

  The development reads the arithmetic in two ways.  In this section and in the
  definitions that follow it a finite value is an exact real and no operation rounds:
  they give the exceptions, the control flow and the structure of the results, and the
  values the notebooks would compute in exact arithmetic.  The sections on \<open>float64\<close>
  arithmetic add the rounding of every operation, overflow, and the wrap-around of
  \<open>int64\<close>; the statements about exact values refer to them.
\<close>

datatype npfloat = Finite real | NonFinite

fun fmul :: "npfloat \<Rightarrow> npfloat \<Rightarrow> npfloat" where
  "fmul (Finite a) (Finite b) = Finite (a * b)"
| "fmul _ _ = NonFinite"

fun fadd :: "npfloat \<Rightarrow> npfloat \<Rightarrow> npfloat" where
  "fadd (Finite a) (Finite b) = Finite (a + b)"
| "fadd _ _ = NonFinite"

text \<open>Division of a float by a finite divisor; the divisor zero gives a non-finite value.\<close>

fun fdiv :: "npfloat \<Rightarrow> real \<Rightarrow> npfloat" where
  "fdiv (Finite a) d = (if d = 0 then NonFinite else Finite (a / d))"
| "fdiv NonFinite d = NonFinite"

text \<open>The finite value carried by a float (used only where the float is known to be finite).\<close>

fun finite_value :: "npfloat \<Rightarrow> real" where
  "finite_value (Finite a) = a"
| "finite_value NonFinite = 0"

text \<open>The reals of a list of floats, when all of them are finite.\<close>

fun all_finite :: "npfloat list \<Rightarrow> real list option" where
  "all_finite [] = Some []"
| "all_finite (Finite a # xs) = (case all_finite xs of None \<Rightarrow> None | Some rs \<Rightarrow> Some (a # rs))"
| "all_finite (NonFinite # xs) = None"

text \<open>
  The notebooks define no exception class and contain no \<open>raise\<close> statement.  The
  exceptions a run can end with are those raised inside NumPy, pandas and SciPy
  (\<open>np_error\<close>).  The type \<open>error\<close> adds the four names of the documented error
  taxonomy, so that statements about them can be written down.
\<close>

datatype np_error = TypeError | ValueError | LinAlgError | RuntimeError

datatype error =
    ConfigurationError
  | InsufficientDataError
  | UnderdeterminedFitError
  | FitConvergenceError
  | Raised np_error

section \<open>Library functions used by the notebooks\<close>

text \<open>\<open>Series.unique()\<close>: the distinct values in order of first appearance.\<close>

fun unique :: "'a list \<Rightarrow> 'a list" where
  "unique [] = []"
| "unique (x # xs) = x # unique (filter (\<lambda>y. y \<noteq> x) xs)"

text \<open>
  \<open>np.mean\<close> and \<open>np.std\<close> of a list of floats.  \<open>np.std\<close> is called without
  \<open>ddof\<close>, so it computes \<open>sqrt(mean(abs(x - x.mean())**2))\<close>.  On an empty list
  both return \<open>nan\<close> (with a warning).
\<close>

definition np_mean :: "npfloat list \<Rightarrow> npfloat" where
  "np_mean xs =
     (case all_finite xs of
        None \<Rightarrow> NonFinite
      | Some rs \<Rightarrow> fdiv (Finite (sum_list rs)) (real (length rs)))"

definition np_std :: "npfloat list \<Rightarrow> npfloat" where
  "np_std xs =
     (case all_finite xs of
        None \<Rightarrow> NonFinite
      | Some rs \<Rightarrow>
          (if rs = [] then NonFinite
           else let m = sum_list rs / real (length rs)
                in Finite (sqrt (sum_list (map (\<lambda>x. \<bar>x - m\<bar> ^ 2) rs) / real (length rs)))))"

text \<open>
  \<open>np.polyfit(x, y, 1)[0]\<close>: the slope of the least-squares line.  NumPy rejects an
  empty \<open>x\<close> and vectors of different lengths with \<open>TypeError\<close>.  When \<open>y\<close> is finite
  and the normal equations are regular (determinant \<open>n * sum(x*x) - sum(x)**2\<close> not
  zero) the least-squares slope is unique and given in closed form.  Otherwise (a
  rank-deficient design matrix, or non-finite data) the result is whatever the
  linear-algebra backend makes of the system: a minimum-norm solution with a
  \<open>RankWarning\<close>, \<open>nan\<close>, or a \<open>LinAlgError\<close>.  That behaviour is the parameter
  \<open>degenerate\<close>.
\<close>

type_synonym lstsq_backend = "real list \<Rightarrow> npfloat list \<Rightarrow> np_error + npfloat"

definition np_polyfit :: "lstsq_backend \<Rightarrow> real list \<Rightarrow> npfloat list \<Rightarrow> np_error + npfloat" where
  "np_polyfit degenerate x y =
     (if x = [] then Inl TypeError
      else if length x \<noteq> length y then Inl TypeError
      else case all_finite y of
        None \<Rightarrow> degenerate x y
      | Some ys \<Rightarrow>
          (let n = real (length x);
               sx = sum_list x;
               sxx = sum_list (map (\<lambda>t. t * t) x);
               sy = sum_list ys;
               sxy = sum_list (map2 (\<lambda>t v. t * v) x ys);
               det = n * sxx - sx * sx
           in if det = 0 then degenerate x y
              else Inr (Finite ((n * sxy - sx * sy) / det))))"

text \<open>
  The quantity a least-squares line minimises: the sum of the squared residuals of the
  line with slope \<open>a\<close> and intercept \<open>b\<close>.
\<close>

definition sum_squared_residuals :: "real list \<Rightarrow> real list \<Rightarrow> real \<Rightarrow> real \<Rightarrow> real" where
  "sum_squared_residuals x y a b = sum_list (map2 (\<lambda>t v. (v - (a * t + b)) ^ 2) x y)"

text \<open>
  One behaviour of the backend, used to evaluate examples.  \<open>np.polyfit\<close> divides the
  column of times by its norm, so an all-zero column becomes \<open>nan\<close> and the
  decomposition fails with \<open>LinAlgError\<close>, whatever \<open>y\<close> is.  Otherwise non-finite
  data give \<open>nan\<close>, and a rank-deficient system whose times all equal \<open>t \<noteq> 0\<close> has
  the minimum-norm solution with slope \<open>mean(y) / (2 * t)\<close>.
\<close>

definition lapack_gelsd :: lstsq_backend where
  "lapack_gelsd x y =
     (if list_all (\<lambda>t. t = 0) x then Inl LinAlgError
      else case all_finite y of
        None \<Rightarrow> Inr NonFinite
      | Some ys \<Rightarrow>
          (case x of
             [] \<Rightarrow> Inl TypeError
           | t # _ \<Rightarrow> Inr (Finite (sum_list ys / real (length ys) / (2 * t)))))"


text \<open>
  \<open>np.random.normal(loc, scale, size)\<close>.  The generator state is the stream of
  standard normal draws still to come; a call for \<open>n\<close> values consumes \<open>n\<close> of them and returns
  \<open>loc + scale * z\<close> for each.  A negative \<open>scale\<close> raises \<open>ValueError\<close>.
\<close>

type_synonym rng = "nat \<Rightarrow> real"

definition random_normal :: "real \<Rightarrow> real \<Rightarrow> nat \<Rightarrow> rng \<Rightarrow> np_error + (real list \<times> rng)" where
  "random_normal loc scale n g =
     (if scale < 0 then Inl ValueError
      else Inr (map (\<lambda>i. loc + scale * g i) [0..<n], (\<lambda>i. g (i + n))))"

section \<open>The Michaelis-Menten equation\<close>

text \<open>
  \<^verbatim>\<open>def michaelis_menten(S, V_max, K_m): return (V_max * S) / (K_m + S)\<close>
  The function is called with NumPy scalars and arrays, for which \<open>K_m + S = 0\<close>
  produces a non-finite value instead of an exception.
\<close>

definition michaelis_menten :: "real \<Rightarrow> real \<Rightarrow> real \<Rightarrow> npfloat" where
  "michaelis_menten S V_max K_m = fdiv (Finite (V_max * S)) (K_m + S)"

section \<open>The synthetic data generator\<close>

text \<open>
  The tables of the notebooks.  The simulator notebook builds rows with the columns
  \<open>Time\<close>, \<open>Absorbance\<close> and \<open>Substrate_Concentration\<close>; the exported table adds
  \<open>Replicate\<close>.
\<close>

record obs =
  Time :: real
  Absorbance :: npfloat
  Substrate_Concentration :: real

record row = obs +
  Replicate :: int

text \<open>
  \<open>simulate_absorbance(S, time, epsilon, path_length, noise_level)\<close> reads the globals
  \<open>V_max\<close> and \<open>K_m\<close>, which are the first two arguments here, and the generator
  state, which is passed in and returned.
\<close>

definition simulate_absorbance ::
  "real \<Rightarrow> real \<Rightarrow> real \<Rightarrow> real list \<Rightarrow> real \<Rightarrow> real \<Rightarrow> real \<Rightarrow> rng
     \<Rightarrow> np_error + (npfloat list \<times> rng)" where
  "simulate_absorbance V_max K_m S time epsilon path_length noise_level g =
     (let P = map (\<lambda>t. fmul (michaelis_menten S V_max K_m) (Finite t)) time;
          A = map (\<lambda>p. fmul (Finite (epsilon * path_length)) p) P
      in case random_normal 0 noise_level (length A) g of
           Inl e \<Rightarrow> Inl e
         | Inr (noise, g') \<Rightarrow> Inr (map2 fadd A (map Finite noise), g'))"



text \<open>
  \<open>save_simulated_absorbance_data\<close>: the rows appended for every concentration, every
  replicate \<open>1 .. n_replicates\<close> and every time point.  The value is the table written
  to the CSV file; \<open>load_external_data\<close> below reads it back.
\<close>

fun simulate_replicates ::
  "real \<Rightarrow> real \<Rightarrow> real \<Rightarrow> real list \<Rightarrow> real \<Rightarrow> real \<Rightarrow> real \<Rightarrow> int list \<Rightarrow> rng
     \<Rightarrow> np_error + (row list \<times> rng)" where
  "simulate_replicates V_max K_m S time epsilon path_length noise_level [] g = Inr ([], g)"
| "simulate_replicates V_max K_m S time epsilon path_length noise_level (replicate_id # rs) g =
     (case simulate_absorbance V_max K_m S time epsilon path_length noise_level g of
        Inl e \<Rightarrow> Inl e
      | Inr (A_noisy, g1) \<Rightarrow>
          (case simulate_replicates V_max K_m S time epsilon path_length noise_level rs g1 of
             Inl e \<Rightarrow> Inl e
           | Inr (data, g2) \<Rightarrow>
               Inr (map (\<lambda>(t, absorbance).
                          \<lparr>Time = t, Absorbance = absorbance, Substrate_Concentration = S,
                           Replicate = replicate_id\<rparr>) (zip time A_noisy) @ data, g2)))"

fun save_simulated_absorbance_data ::
  "real \<Rightarrow> real \<Rightarrow> real list \<Rightarrow> real list \<Rightarrow> real \<Rightarrow> real \<Rightarrow> real \<Rightarrow> int \<Rightarrow> rng
     \<Rightarrow> np_error + (row list \<times> rng)" where
  "save_simulated_absorbance_data V_max K_m [] time epsilon path_length noise_level
     n_replicates g = Inr ([], g)"
| "save_simulated_absorbance_data V_max K_m (S # Ss) time epsilon path_length noise_level
     n_replicates g =
     (case simulate_replicates V_max K_m S time epsilon path_length noise_level
             [1..n_replicates] g of
        Inl e \<Rightarrow> Inl e
      | Inr (data_S, g1) \<Rightarrow>
          (case save_simulated_absorbance_data V_max K_m Ss time epsilon path_length
                  noise_level n_replicates g1 of
             Inl e \<Rightarrow> Inl e
           | Inr (data, g2) \<Rightarrow> Inr (data_S @ data, g2)))"

text \<open>
  The tables expected without noise, as formulas: the Beer-Lambert absorbance of the
  product concentration \<open>v(S) * t\<close> at every time point (one frame of the simulator
  notebook), and, for the exported table, for every concentration of the list, every
  replicate \<open>1 .. n_replicates\<close> and every time point, in the order of the loops.
\<close>

definition beer_lambert :: "real \<Rightarrow> real \<Rightarrow> real \<Rightarrow> real \<Rightarrow> real \<Rightarrow> real \<Rightarrow> real" where
  "beer_lambert V_max K_m S epsilon path_length t =
     epsilon * path_length * (V_max * S / (K_m + S)) * t"


definition noiseless_rows ::
  "real \<Rightarrow> real \<Rightarrow> real \<Rightarrow> real list \<Rightarrow> real \<Rightarrow> real \<Rightarrow> int \<Rightarrow> row list" where
  "noiseless_rows V_max K_m S time epsilon path_length replicate_id =
     map (\<lambda>t. \<lparr>Time = t, Absorbance = Finite (beer_lambert V_max K_m S epsilon path_length t),
               Substrate_Concentration = S, Replicate = replicate_id\<rparr>) time"

definition noiseless_table ::
  "real \<Rightarrow> real \<Rightarrow> real list \<Rightarrow> real list \<Rightarrow> real \<Rightarrow> real \<Rightarrow> int \<Rightarrow> row list" where
  "noiseless_table V_max K_m substrate_concentrations time epsilon path_length n_replicates =
     concat (map (\<lambda>S. concat (map (noiseless_rows V_max K_m S time epsilon path_length)
                                 [1..n_replicates])) substrate_concentrations)"

section \<open>The initial velocity estimator\<close>

text \<open>
  The column \<open>Concentration = Absorbance / (epsilon * path_length)\<close> added to a table:
  each row is paired with its converted value.
\<close>

definition with_Concentration ::
  "'a obs_scheme list \<Rightarrow> real \<Rightarrow> real \<Rightarrow> ('a obs_scheme \<times> npfloat) list" where
  "with_Concentration df epsilon path_length =
     map (\<lambda>r. (r, fdiv (Absorbance r) (epsilon * path_length))) df"



text \<open>
  \<open>calculate_initial_velocities(df, epsilon, path_length)\<close>.  The inner loop fits one
  line per replicate of a concentration; the outer loop stores the mean and the
  standard deviation of the slopes.  An exception of \<open>np.polyfit\<close> ends the call.
\<close>

fun v0_values_loop ::
  "lstsq_backend \<Rightarrow> (row \<times> npfloat) list \<Rightarrow> int list \<Rightarrow> np_error + npfloat list" where
  "v0_values_loop backend subset_S [] = Inr []"
| "v0_values_loop backend subset_S (replicate_id # rs) =
     (let replicate_data = filter (\<lambda>r. Replicate (fst r) = replicate_id) subset_S
      in case np_polyfit backend (map (\<lambda>r. Time (fst r)) replicate_data)
                (map snd replicate_data) of
           Inl e \<Rightarrow> Inl e
         | Inr slope \<Rightarrow>
             (case v0_values_loop backend subset_S rs of
                Inl e \<Rightarrow> Inl e
              | Inr v0_values \<Rightarrow> Inr (slope # v0_values)))"

text \<open>The body of the outer loop for one concentration, given its rows.\<close>

definition v0_values_of :: "lstsq_backend \<Rightarrow> row list \<Rightarrow> real \<Rightarrow> real \<Rightarrow> np_error + npfloat list" where
  "v0_values_of backend subset_S epsilon path_length =
     (let subset_conc = with_Concentration subset_S epsilon path_length
      in v0_values_loop backend subset_conc (unique (map (\<lambda>r. Replicate (fst r)) subset_conc)))"

fun velocities_loop ::
  "lstsq_backend \<Rightarrow> row list \<Rightarrow> real \<Rightarrow> real \<Rightarrow> real list
     \<Rightarrow> np_error + (npfloat list \<times> npfloat list)" where
  "velocities_loop backend df epsilon path_length [] = Inr ([], [])"
| "velocities_loop backend df epsilon path_length (S # Ss) =
     (let subset_S = filter (\<lambda>r. Substrate_Concentration r = S) df
      in case v0_values_of backend subset_S epsilon path_length of
           Inl e \<Rightarrow> Inl e
         | Inr v0_values \<Rightarrow>
             (case velocities_loop backend df epsilon path_length Ss of
                Inl e \<Rightarrow> Inl e
              | Inr (initial_velocities, std_velocities) \<Rightarrow>
                  Inr (np_mean v0_values # initial_velocities,
                       np_std v0_values # std_velocities)))"

definition calculate_initial_velocities ::
  "lstsq_backend \<Rightarrow> row list \<Rightarrow> real \<Rightarrow> real
     \<Rightarrow> error + (real list \<times> npfloat list \<times> npfloat list)" where
  "calculate_initial_velocities backend df epsilon path_length =
     (let substrate_concentrations = unique (map Substrate_Concentration df)
      in case velocities_loop backend df epsilon path_length substrate_concentrations of
           Inl e \<Rightarrow> Inl (Raised e)
         | Inr (initial_velocities, std_velocities) \<Rightarrow>
             Inr (substrate_concentrations, initial_velocities, std_velocities))"

text \<open>
  What the returned triple reports for the concentration \<open>S\<close>: the entries of the two
  lists at the position of \<open>S\<close> in the list of concentrations.
\<close>

definition reported ::
  "real \<Rightarrow> real list \<times> npfloat list \<times> npfloat list \<Rightarrow> (npfloat \<times> npfloat) option" where
  "reported S out = map_of (zip (fst out) (zip (fst (snd out)) (snd (snd out)))) S"



text \<open>
  Two small tables used in examples.  They agree on the rows of the concentration 10
  (two replicates, slopes 1 and 3 for \<open>epsilon = 1000\<close>) and differ elsewhere.
\<close>

definition example_df :: "row list" where
  "example_df =
     [\<lparr>Time = 0, Absorbance = Finite 0, Substrate_Concentration = 10, Replicate = 1\<rparr>,
      \<lparr>Time = 1, Absorbance = Finite 1000, Substrate_Concentration = 10, Replicate = 1\<rparr>,
      \<lparr>Time = 0, Absorbance = Finite 0, Substrate_Concentration = 10, Replicate = 2\<rparr>,
      \<lparr>Time = 1, Absorbance = Finite 3000, Substrate_Concentration = 10, Replicate = 2\<rparr>,
      \<lparr>Time = 0, Absorbance = Finite 0, Substrate_Concentration = 20, Replicate = 1\<rparr>,
      \<lparr>Time = 1, Absorbance = Finite 5000, Substrate_Concentration = 20, Replicate = 1\<rparr>]"

definition example_df' :: "row list" where
  "example_df' =
     [\<lparr>Time = 0, Absorbance = Finite 0, Substrate_Concentration = 20, Replicate = 1\<rparr>,
      \<lparr>Time = 0, Absorbance = Finite 0, Substrate_Concentration = 10, Replicate = 1\<rparr>,
      \<lparr>Time = 1, Absorbance = Finite 1000, Substrate_Concentration = 10, Replicate = 1\<rparr>,
      \<lparr>Time = 2, Absorbance = Finite 8000, Substrate_Concentration = 20, Replicate = 1\<rparr>,
      \<lparr>Time = 0, Absorbance = Finite 0, Substrate_Concentration = 10, Replicate = 2\<rparr>,
      \<lparr>Time = 1, Absorbance = Finite 3000, Substrate_Concentration = 10, Replicate = 2\<rparr>]"

section \<open>The Michaelis-Menten fitter\<close>

text \<open>
  \<open>curve_fit(michaelis_menten, S, v0, p0=[V_max, K_m])\<close> for aligned lists of
  concentrations and velocities, given as pairs.  SciPy checks that the velocities are
  finite and not empty (\<open>ValueError\<close>), refuses fewer data points than the two
  parameters (\<open>TypeError\<close>), and then runs the Levenberg-Marquardt iteration of MINPACK
  on the residuals.  The iteration is the parameter \<open>leastsq\<close>; when it reports no
  convergence \<open>curve_fit\<close> raises \<open>RuntimeError\<close>.
\<close>

type_synonym lm_solver = "(real \<times> real \<Rightarrow> npfloat list) \<Rightarrow> real \<times> real \<Rightarrow> (real \<times> real) option"

definition residuals :: "(real \<times> real) list \<Rightarrow> real \<times> real \<Rightarrow> npfloat list" where
  "residuals data p =
     map (\<lambda>d. fadd (michaelis_menten (fst d) (fst p) (snd p)) (Finite (- snd d))) data"

definition fit_michaelis_menten ::
  "lm_solver \<Rightarrow> (real \<times> npfloat) list \<Rightarrow> real \<times> real \<Rightarrow> error + (real \<times> real)" where
  "fit_michaelis_menten leastsq observations p0 =
     (case all_finite (map snd observations) of
        None \<Rightarrow> Inl (Raised ValueError)
      | Some ydata \<Rightarrow>
          if ydata = [] then Inl (Raised ValueError)
          else if length ydata < 2 then Inl (Raised TypeError)
          else (case leastsq (residuals (zip (map fst observations) ydata)) p0 of
                  None \<Rightarrow> Inl (Raised RuntimeError)
                | Some popt \<Rightarrow> Inr popt))"

text \<open>A solver that never converges, for examples in which the solver is not reached.\<close>

definition leastsq_no_convergence :: lm_solver where
  "leastsq_no_convergence func x0 = None"

section \<open>The plate grid\<close>

text \<open>
  The plate table has the columns \<open>row\<close>, \<open>col\<close>, \<open>column\<close> and \<open>value\<close>: the notebook
  groups by \<open>row\<close> and \<open>col\<close> and takes the labels of the grid from \<open>row\<close> and
  \<open>column\<close>.  A value is \<open>None\<close> for \<open>nan\<close>, the marker of a missing measurement.
\<close>

record ('r, 'c) well =
  row :: 'r
  col :: 'c
  column :: 'c
  value' :: "real option"










section \<open>Float64 and int64 arithmetic\<close>

text \<open>
  A NumPy \<open>float64\<close> is an IEEE 754 binary64 number: 53 significant bits, exponents from
  \<open>-1022\<close> to \<open>1023\<close>, subnormal numbers below \<open>2 ^ -1022\<close>.  Every arithmetic operation
  returns its exact result rounded to the nearest such number, a tie going to the number
  with an even last bit.

  \<open>round_half_even y\<close> is the integer nearest to \<open>y\<close>, ties to even.
\<close>

definition round_half_even :: "real \<Rightarrow> int" where
  "round_half_even y =
     (let f = \<lfloor>y\<rfloor>; d = y - of_int f
      in if d < 1 / 2 then f else if 1 / 2 < d then f + 1 else if even f then f else f + 1)"

text \<open>
  The binary exponent used to round \<open>x\<close>: the \<open>k\<close> with \<open>2 ^ k \<le> \<bar>x\<bar> < 2 ^ (k + 1)\<close>, and
  \<open>-1022\<close> for the subnormal range.  It is found by counting up from \<open>-1022\<close>.
\<close>

function f64_exponent_from :: "int \<Rightarrow> real \<Rightarrow> int" where
  "f64_exponent_from e x =
     (if 2 powi (e + 1) \<le> \<bar>x\<bar> then f64_exponent_from (e + 1) x else e)"
  by pat_completeness auto
termination
proof (relation "measure (\<lambda>(e, x). nat (\<lceil>\<bar>x\<bar>\<rceil> - e))")
  show "wf (measure (\<lambda>(e, x). nat (\<lceil>\<bar>x\<bar>\<rceil> - e)))"
    by simp
next
  fix e :: int and x :: real
  assume le: "2 powi (e + 1) \<le> \<bar>x\<bar>"
  have "real_of_int (e + 1) < 2 powi (e + 1)"
  proof (cases "0 \<le> e + 1")
    case True
    then obtain n where n: "e + 1 = int n"
      using nonneg_int_cases by blast
    have "real n < 2 ^ n"
      by (rule of_nat_less_two_power)
    then show ?thesis
      by (simp add: n)
  next
    case False
    then have "real_of_int (e + 1) < 0"
      by simp
    also have "(0::real) < 2 powi (e + 1)"
      by simp
    finally show ?thesis .
  qed
  then have "real_of_int (e + 1) < \<bar>x\<bar>"
    using le by linarith
  then have "e + 1 < \<lceil>\<bar>x\<bar>\<rceil>"
    by linarith
  then show "((e + 1, x), (e, x)) \<in> measure (\<lambda>(e, x). nat (\<lceil>\<bar>x\<bar>\<rceil> - e))"
    by simp
qed

definition f64_exponent :: "real \<Rightarrow> int" where
  "f64_exponent x = f64_exponent_from (- 1022) x"

text \<open>
  \<open>f64_round x\<close>: the \<open>float64\<close> an operation returns when its exact result is \<open>x\<close>.  The
  result is a multiple of the unit in the last place \<open>2 ^ (k - 52)\<close>; a result of
  magnitude \<open>2 ^ 1024\<close> or more is an overflow to \<open>inf\<close> or \<open>-inf\<close>.  From here on a value
  \<open>Finite r\<close> of type \<open>npfloat\<close> stands for the \<open>float64\<close> number \<open>r\<close>, and \<open>NonFinite\<close> for
  \<open>inf\<close>, \<open>-inf\<close> or \<open>nan\<close>.  The two zeros of IEEE arithmetic, which compare equal, are
  not distinguished.
\<close>

definition f64_round :: "real \<Rightarrow> npfloat" where
  "f64_round x =
     (if x = 0 then Finite 0
      else let q = 2 powi (f64_exponent x - 52);
               r = of_int (round_half_even (x / q)) * q
           in if \<bar>r\<bar> < 2 ^ 1024 then Finite r else NonFinite)"

text \<open>The real numbers that are \<open>float64\<close> numbers: those that rounding leaves unchanged.\<close>

definition is_f64 :: "real \<Rightarrow> bool" where
  "is_f64 x \<longleftrightarrow> f64_round x = Finite x"

text \<open>
  A value as it is stored in a \<open>float64\<close> array, and the values that are stored ones.
\<close>

fun f64_store :: "npfloat \<Rightarrow> npfloat" where
  "f64_store (Finite a) = f64_round a"
| "f64_store NonFinite = NonFinite"

definition f64_stored :: "npfloat \<Rightarrow> bool" where
  "f64_stored v \<longleftrightarrow> f64_store v = v"

text \<open>
  The operations \<open>+\<close>, \<open>-\<close>, \<open>*\<close>, \<open>/\<close> and \<open>sqrt\<close> on \<open>float64\<close> values.  A sum, difference
  or product with an operand \<open>inf\<close> or \<open>nan\<close> is \<open>inf\<close> or \<open>nan\<close> again.  A division by zero
  gives \<open>inf\<close> or \<open>nan\<close>.  The only non-finite divisors of the notebooks are overflows of
  \<open>K_m + S\<close> and of \<open>epsilon * path_length\<close>, that is infinities, and a finite number
  divided by an infinity is zero.
\<close>

fun f64_add :: "npfloat \<Rightarrow> npfloat \<Rightarrow> npfloat" where
  "f64_add (Finite a) (Finite b) = f64_round (a + b)"
| "f64_add _ _ = NonFinite"

fun f64_sub :: "npfloat \<Rightarrow> npfloat \<Rightarrow> npfloat" where
  "f64_sub (Finite a) (Finite b) = f64_round (a - b)"
| "f64_sub _ _ = NonFinite"

fun f64_mul :: "npfloat \<Rightarrow> npfloat \<Rightarrow> npfloat" where
  "f64_mul (Finite a) (Finite b) = f64_round (a * b)"
| "f64_mul _ _ = NonFinite"

fun f64_div :: "npfloat \<Rightarrow> npfloat \<Rightarrow> npfloat" where
  "f64_div (Finite a) (Finite b) = (if b = 0 then NonFinite else f64_round (a / b))"
| "f64_div (Finite a) NonFinite = Finite 0"
| "f64_div NonFinite _ = NonFinite"

fun f64_sqrt :: "npfloat \<Rightarrow> npfloat" where
  "f64_sqrt (Finite a) = (if a < 0 then NonFinite else f64_round (sqrt a))"
| "f64_sqrt NonFinite = NonFinite"

text \<open>
  A NumPy \<open>int64\<close> operation wraps around modulo \<open>2 ^ 64\<close> (with a warning, not an
  exception).
\<close>

definition wrap64 :: "int \<Rightarrow> int" where
  "wrap64 i = (i + 2 ^ 63) mod 2 ^ 64 - 2 ^ 63"

text \<open>
  The numbers the notebooks pass around are integers (a Python \<open>int\<close> or a NumPy \<open>int64\<close>,
  taken to lie in the \<open>int64\<close> range) or floats (a Python \<open>float\<close> or a NumPy \<open>float64\<close>,
  here a finite one).  The notebooks use the integers \<open>V_max = 100\<close>, \<open>K_m = 50\<close>,
  \<open>epsilon = 1000\<close>, \<open>path_length = 1\<close> and an \<open>int64\<close> array of concentrations;
  \<open>curve_fit\<close> calls \<open>michaelis_menten\<close> with floats.
\<close>

datatype number = I64 int | F64 real

fun number_value :: "number \<Rightarrow> real" where
  "number_value (I64 i) = of_int i"
| "number_value (F64 x) = x"

text \<open>The conversion to \<open>float64\<close>, which rounds an integer of more than 53 bits.\<close>

fun as_f64 :: "number \<Rightarrow> npfloat" where
  "as_f64 (I64 i) = f64_round (of_int i)"
| "as_f64 (F64 x) = Finite x"

text \<open>
  \<open>a * b\<close> and \<open>a + b\<close> where one operand is a NumPy scalar, with the result converted to
  \<open>float64\<close> (as the division of \<open>michaelis_menten\<close> does): two integers are multiplied
  or added as \<open>int64\<close>, wrapping around; otherwise both are converted to \<open>float64\<close> first.
\<close>

fun np_multiply :: "number \<Rightarrow> number \<Rightarrow> npfloat" where
  "np_multiply (I64 a) (I64 b) = f64_round (of_int (wrap64 (a * b)))"
| "np_multiply x y = f64_mul (as_f64 x) (as_f64 y)"

fun np_add :: "number \<Rightarrow> number \<Rightarrow> npfloat" where
  "np_add (I64 a) (I64 b) = f64_round (of_int (wrap64 (a + b)))"
| "np_add x y = f64_add (as_f64 x) (as_f64 y)"

text \<open>
  \<open>epsilon * path_length\<close>, a product of two Python numbers, converted to \<open>float64\<close> when it
  meets an array: the product of two Python integers is exact.
\<close>

fun py_multiply :: "number \<Rightarrow> number \<Rightarrow> npfloat" where
  "py_multiply (I64 a) (I64 b) = f64_round (of_int (a * b))"
| "py_multiply x y = f64_mul (as_f64 x) (as_f64 y)"

section \<open>The notebooks in float64 arithmetic\<close>

text \<open>
  The functions of the notebooks as NumPy evaluates them.  They have the structure of the
  definitions above, with every arithmetic operation rounded.

  \<^verbatim>\<open>def michaelis_menten(S, V_max, K_m): return (V_max * S) / (K_m + S)\<close>
\<close>

definition michaelis_menten_np :: "number \<Rightarrow> number \<Rightarrow> number \<Rightarrow> npfloat" where
  "michaelis_menten_np S V_max K_m = f64_div (np_multiply V_max S) (np_add K_m S)"

text \<open>
  \<open>np.random.normal(loc, scale, size)\<close> returns \<open>loc + scale * z\<close> for standard normal
  draws \<open>z\<close>, computed in \<open>float64\<close>.
\<close>

definition random_normal_f64 ::
  "real \<Rightarrow> real \<Rightarrow> nat \<Rightarrow> rng \<Rightarrow> np_error + (npfloat list \<times> rng)" where
  "random_normal_f64 loc scale n g =
     (if scale < 0 then Inl ValueError
      else Inr (map (\<lambda>i. f64_add (Finite loc) (f64_mul (Finite scale) (Finite (g i)))) [0..<n],
                (\<lambda>i. g (i + n))))"

text \<open>
  \<^verbatim>\<open>P = michaelis_menten(S, V_max, K_m) * time\<close>
  \<^verbatim>\<open>A = epsilon * path_length * P\<close>
  \<^verbatim>\<open>A_noisy = A + np.random.normal(0, noise_level, size=A.shape)\<close>
  The time points are the entries of a \<open>float64\<close> array.
\<close>

definition simulate_absorbance_np ::
  "number \<Rightarrow> number \<Rightarrow> number \<Rightarrow> real list \<Rightarrow> number \<Rightarrow> number \<Rightarrow> real \<Rightarrow> rng
     \<Rightarrow> np_error + (npfloat list \<times> rng)" where
  "simulate_absorbance_np V_max K_m S time epsilon path_length noise_level g =
     (let P = map (\<lambda>t. f64_mul (michaelis_menten_np S V_max K_m) (Finite t)) time;
          A = map (\<lambda>p. f64_mul (py_multiply epsilon path_length) p) P
      in case random_normal_f64 0 noise_level (length A) g of
           Inl e \<Rightarrow> Inl e
         | Inr (noise, g') \<Rightarrow> Inr (map2 f64_add A noise, g'))"



text \<open>\<open>save_simulated_absorbance_data\<close>: the table written to the CSV file.\<close>

fun simulate_replicates_np ::
  "number \<Rightarrow> number \<Rightarrow> number \<Rightarrow> real list \<Rightarrow> number \<Rightarrow> number \<Rightarrow> real \<Rightarrow> int list \<Rightarrow> rng
     \<Rightarrow> np_error + (row list \<times> rng)" where
  "simulate_replicates_np V_max K_m S time epsilon path_length noise_level [] g = Inr ([], g)"
| "simulate_replicates_np V_max K_m S time epsilon path_length noise_level (replicate_id # rs) g =
     (case simulate_absorbance_np V_max K_m S time epsilon path_length noise_level g of
        Inl e \<Rightarrow> Inl e
      | Inr (A_noisy, g1) \<Rightarrow>
          (case simulate_replicates_np V_max K_m S time epsilon path_length noise_level rs g1 of
             Inl e \<Rightarrow> Inl e
           | Inr (data, g2) \<Rightarrow>
               Inr (map (\<lambda>(t, absorbance).
                          \<lparr>Time = t, Absorbance = absorbance,
                           Substrate_Concentration = number_value S,
                           Replicate = replicate_id\<rparr>) (zip time A_noisy) @ data, g2)))"

fun save_simulated_absorbance_data_np ::
  "number \<Rightarrow> number \<Rightarrow> number list \<Rightarrow> real list \<Rightarrow> number \<Rightarrow> number \<Rightarrow> real \<Rightarrow> int \<Rightarrow> rng
     \<Rightarrow> np_error + (row list \<times> rng)" where
  "save_simulated_absorbance_data_np V_max K_m [] time epsilon path_length noise_level
     n_replicates g = Inr ([], g)"
| "save_simulated_absorbance_data_np V_max K_m (S # Ss) time epsilon path_length noise_level
     n_replicates g =
     (case simulate_replicates_np V_max K_m S time epsilon path_length noise_level
             [1..n_replicates] g of
        Inl e \<Rightarrow> Inl e
      | Inr (data_S, g1) \<Rightarrow>
          (case save_simulated_absorbance_data_np V_max K_m Ss time epsilon path_length
                  noise_level n_replicates g1 of
             Inl e \<Rightarrow> Inl e
           | Inr (data, g2) \<Rightarrow> Inr (data_S @ data, g2)))"

text \<open>
  \<open>load_external_data(csv_file)\<close>, applied to the table that was written: \<open>pd.read_csv\<close>
  returns the rows of the file, the text of a \<open>float64\<close> being taken to read back as the
  same \<open>float64\<close>.  A table without rows is written without a header line, and reading it
  back raises \<open>EmptyDataError\<close>, a subclass of \<open>ValueError\<close>.
\<close>

definition load_external_data :: "row list \<Rightarrow> np_error + row list" where
  "load_external_data csv_file = (if csv_file = [] then Inl ValueError else Inr csv_file)"

text \<open>
  The noise-free absorbance as the generator computes it, and the tables made of it (for
  every concentration, every replicate \<open>1 .. n_replicates\<close> and every time point, in the
  order of the loops).  \<open>noiseless_series_np\<close> is the series of time points and
  absorbances that one replicate of the concentration \<open>S'\<close> has in such a table.
\<close>

definition noiseless_absorbance_np ::
  "number \<Rightarrow> number \<Rightarrow> number \<Rightarrow> number \<Rightarrow> number \<Rightarrow> real \<Rightarrow> npfloat" where
  "noiseless_absorbance_np V_max K_m S epsilon path_length t =
     f64_mul (py_multiply epsilon path_length) (f64_mul (michaelis_menten_np S V_max K_m) (Finite t))"

definition noiseless_rows_np ::
  "number \<Rightarrow> number \<Rightarrow> number \<Rightarrow> real list \<Rightarrow> number \<Rightarrow> number \<Rightarrow> int \<Rightarrow> row list" where
  "noiseless_rows_np V_max K_m S time epsilon path_length replicate_id =
     map (\<lambda>t. \<lparr>Time = t, Absorbance = noiseless_absorbance_np V_max K_m S epsilon path_length t,
               Substrate_Concentration = number_value S, Replicate = replicate_id\<rparr>) time"

definition noiseless_table_np ::
  "number \<Rightarrow> number \<Rightarrow> number list \<Rightarrow> real list \<Rightarrow> number \<Rightarrow> number \<Rightarrow> int \<Rightarrow> row list" where
  "noiseless_table_np V_max K_m substrate_concentrations time epsilon path_length n_replicates =
     concat (map (\<lambda>S. concat (map (noiseless_rows_np V_max K_m S time epsilon path_length)
                                 [1..n_replicates])) substrate_concentrations)"

definition noiseless_series_np ::
  "number \<Rightarrow> number \<Rightarrow> number list \<Rightarrow> real list \<Rightarrow> number \<Rightarrow> number \<Rightarrow> real
     \<Rightarrow> (real \<times> npfloat) list" where
  "noiseless_series_np V_max K_m Ss time epsilon path_length S' =
     concat (map (\<lambda>S. map (\<lambda>t. (t, noiseless_absorbance_np V_max K_m S epsilon path_length t)) time)
               (filter (\<lambda>S. number_value S = S') Ss))"

text \<open>
  The sum of a \<open>float64\<close> array (\<open>np.add.reduce\<close>).  NumPy adds fewer than eight numbers
  one after the other, starting from zero.  Up to 128 numbers are added into eight
  partial sums that are combined pairwise, with the rest added one after the other; a
  longer array is split in two halves that are summed in the same way.  The result is
  added to the initial value zero of the reduction.
\<close>

function pairwise_sum :: "npfloat list \<Rightarrow> npfloat" where
  "pairwise_sum a =
     (if length a < 8 then foldl f64_add (Finite 0) a
      else if length a \<le> 128 then
        (let n = length a;
             r = foldl (\<lambda>r i. map2 f64_add r (take 8 (drop (8 * i) a))) (take 8 a) [1..<n div 8];
             res = f64_add (f64_add (f64_add (r ! 0) (r ! 1)) (f64_add (r ! 2) (r ! 3)))
                           (f64_add (f64_add (r ! 4) (r ! 5)) (f64_add (r ! 6) (r ! 7)))
         in foldl f64_add res (drop (n - n mod 8) a))
      else (let n2 = length a div 2 - (length a div 2) mod 8
            in f64_add (pairwise_sum (take n2 a)) (pairwise_sum (drop n2 a))))"
  by pat_completeness auto
termination
  by (relation "measure length") auto

definition np_sum_f64 :: "npfloat list \<Rightarrow> npfloat" where
  "np_sum_f64 a = f64_add (Finite 0) (pairwise_sum a)"

text \<open>
  \<open>np.mean(a)\<close> is \<open>sum(a) / n\<close>.  \<open>np.std(a)\<close> computes the mean, the deviations
  \<open>x = a - mean\<close>, their squares \<open>x * x\<close>, the sum of the squares divided by \<open>n\<close>, and the
  square root of that.  For an empty list both are \<open>0 / 0\<close>, that is \<open>nan\<close>.
\<close>

definition np_mean_f64 :: "npfloat list \<Rightarrow> npfloat" where
  "np_mean_f64 a = f64_div (np_sum_f64 a) (Finite (real (length a)))"

definition np_std_f64 :: "npfloat list \<Rightarrow> npfloat" where
  "np_std_f64 a =
     (let arrmean = f64_div (np_sum_f64 a) (Finite (real (length a)));
          x = map (\<lambda>v. f64_sub v arrmean) a;
          x2 = map (\<lambda>d. f64_mul d d) x
      in f64_sqrt (f64_div (np_sum_f64 x2) (Finite (real (length a)))))"

text \<open>
  \<open>np.polyfit(x, y, 1)[0]\<close> in \<open>float64\<close>.  After the two checks of its arguments NumPy
  scales the columns of the design matrix and hands the system to the LAPACK routine
  \<open>gelsd\<close>, which works with a singular value decomposition.  The slope that comes back
  is a \<open>float64\<close> number close to the exact least-squares slope, not in general the
  \<open>float64\<close> nearest to it; its last bits depend on the LAPACK build.  The solver is
  therefore the parameter \<open>lstsq\<close>; what the model fixes is that it is a function of the
  two series and that its result is stored as a \<open>float64\<close>.
\<close>

definition np_polyfit_f64 :: "lstsq_backend \<Rightarrow> real list \<Rightarrow> npfloat list \<Rightarrow> np_error + npfloat" where
  "np_polyfit_f64 lstsq x y =
     (if x = [] then Inl TypeError
      else if length x \<noteq> length y then Inl TypeError
      else case lstsq x y of Inl e \<Rightarrow> Inl e | Inr slope \<Rightarrow> Inr (f64_store slope))"

text \<open>A solver that returns the slope \<open>slope\<close>, to evaluate examples.\<close>

definition lstsq_returning :: "real \<Rightarrow> lstsq_backend" where
  "lstsq_returning slope x y = Inr (Finite slope)"

text \<open>The column \<open>Concentration = Absorbance / (epsilon * path_length)\<close>.\<close>

definition with_Concentration_f64 ::
  "'a obs_scheme list \<Rightarrow> number \<Rightarrow> number \<Rightarrow> ('a obs_scheme \<times> npfloat) list" where
  "with_Concentration_f64 df epsilon path_length =
     map (\<lambda>r. (r, f64_div (Absorbance r) (py_multiply epsilon path_length))) df"



text \<open>\<open>calculate_initial_velocities(df, epsilon, path_length)\<close>.\<close>

fun v0_values_loop_f64 ::
  "lstsq_backend \<Rightarrow> (row \<times> npfloat) list \<Rightarrow> int list \<Rightarrow> np_error + npfloat list" where
  "v0_values_loop_f64 lstsq subset_S [] = Inr []"
| "v0_values_loop_f64 lstsq subset_S (replicate_id # rs) =
     (let replicate_data = filter (\<lambda>r. Replicate (fst r) = replicate_id) subset_S
      in case np_polyfit_f64 lstsq (map (\<lambda>r. Time (fst r)) replicate_data)
                (map snd replicate_data) of
           Inl e \<Rightarrow> Inl e
         | Inr slope \<Rightarrow>
             (case v0_values_loop_f64 lstsq subset_S rs of
                Inl e \<Rightarrow> Inl e
              | Inr v0_values \<Rightarrow> Inr (slope # v0_values)))"

definition v0_values_of_f64 ::
  "lstsq_backend \<Rightarrow> row list \<Rightarrow> number \<Rightarrow> number \<Rightarrow> np_error + npfloat list" where
  "v0_values_of_f64 lstsq subset_S epsilon path_length =
     (let subset_conc = with_Concentration_f64 subset_S epsilon path_length
      in v0_values_loop_f64 lstsq subset_conc
           (unique (map (\<lambda>r. Replicate (fst r)) subset_conc)))"

fun velocities_loop_f64 ::
  "lstsq_backend \<Rightarrow> row list \<Rightarrow> number \<Rightarrow> number \<Rightarrow> real list
     \<Rightarrow> np_error + (npfloat list \<times> npfloat list)" where
  "velocities_loop_f64 lstsq df epsilon path_length [] = Inr ([], [])"
| "velocities_loop_f64 lstsq df epsilon path_length (S # Ss) =
     (let subset_S = filter (\<lambda>r. Substrate_Concentration r = S) df
      in case v0_values_of_f64 lstsq subset_S epsilon path_length of
           Inl e \<Rightarrow> Inl e
         | Inr v0_values \<Rightarrow>
             (case velocities_loop_f64 lstsq df epsilon path_length Ss of
                Inl e \<Rightarrow> Inl e
              | Inr (initial_velocities, std_velocities) \<Rightarrow>
                  Inr (np_mean_f64 v0_values # initial_velocities,
                       np_std_f64 v0_values # std_velocities)))"

definition calculate_initial_velocities_f64 ::
  "lstsq_backend \<Rightarrow> row list \<Rightarrow> number \<Rightarrow> number
     \<Rightarrow> error + (real list \<times> npfloat list \<times> npfloat list)" where
  "calculate_initial_velocities_f64 lstsq df epsilon path_length =
     (let substrate_concentrations = unique (map Substrate_Concentration df)
      in case velocities_loop_f64 lstsq df epsilon path_length substrate_concentrations of
           Inl e \<Rightarrow> Inl (Raised e)
         | Inr (initial_velocities, std_velocities) \<Rightarrow>
             Inr (substrate_concentrations, initial_velocities, std_velocities))"

text \<open>
  Two tables used in examples: what the generator writes for \<open>V_max = 100\<close>, \<open>K_m = 50\<close>,
  the concentration 20, the time points 0, 1, 2, \<open>epsilon = 1000\<close>, \<open>path_length = 1\<close> and
  \<open>noise_level = 0\<close>, with two and with three replicates.
\<close>

definition example_table_2 :: "row list" where
  "example_table_2 =
     [\<lparr>Time = 0, Absorbance = Finite 0, Substrate_Concentration = 20, Replicate = 1\<rparr>,
      \<lparr>Time = 1, Absorbance = Finite (3926827242057143 / 2 ^ 37), Substrate_Concentration = 20, Replicate = 1\<rparr>,
      \<lparr>Time = 2, Absorbance = Finite (3926827242057143 / 2 ^ 36), Substrate_Concentration = 20, Replicate = 1\<rparr>,
      \<lparr>Time = 0, Absorbance = Finite 0, Substrate_Concentration = 20, Replicate = 2\<rparr>,
      \<lparr>Time = 1, Absorbance = Finite (3926827242057143 / 2 ^ 37), Substrate_Concentration = 20, Replicate = 2\<rparr>,
      \<lparr>Time = 2, Absorbance = Finite (3926827242057143 / 2 ^ 36), Substrate_Concentration = 20, Replicate = 2\<rparr>]"

definition example_table_3 :: "row list" where
  "example_table_3 =
     [\<lparr>Time = 0, Absorbance = Finite 0, Substrate_Concentration = 20, Replicate = 1\<rparr>,
      \<lparr>Time = 1, Absorbance = Finite (3926827242057143 / 2 ^ 37), Substrate_Concentration = 20, Replicate = 1\<rparr>,
      \<lparr>Time = 2, Absorbance = Finite (3926827242057143 / 2 ^ 36), Substrate_Concentration = 20, Replicate = 1\<rparr>,
      \<lparr>Time = 0, Absorbance = Finite 0, Substrate_Concentration = 20, Replicate = 2\<rparr>,
      \<lparr>Time = 1, Absorbance = Finite (3926827242057143 / 2 ^ 37), Substrate_Concentration = 20, Replicate = 2\<rparr>,
      \<lparr>Time = 2, Absorbance = Finite (3926827242057143 / 2 ^ 36), Substrate_Concentration = 20, Replicate = 2\<rparr>,
      \<lparr>Time = 0, Absorbance = Finite 0, Substrate_Concentration = 20, Replicate = 3\<rparr>,
      \<lparr>Time = 1, Absorbance = Finite (3926827242057143 / 2 ^ 37), Substrate_Concentration = 20, Replicate = 3\<rparr>,
      \<lparr>Time = 2, Absorbance = Finite (3926827242057143 / 2 ^ 36), Substrate_Concentration = 20, Replicate = 3\<rparr>]"


section \<open>Properties of float64 rounding\<close>

declare f64_exponent_from.simps [simp del]

declare pairwise_sum.simps [simp del]

lemma f64_exponent_from_eq:
  "e \<le> k \<Longrightarrow> 2 powi k \<le> \<bar>x\<bar> \<or> k = e \<Longrightarrow> \<bar>x\<bar> < 2 powi (k + 1)
   \<Longrightarrow> f64_exponent_from e x = k"
proof (induction "nat (k - e)" arbitrary: e)
  case 0
  then have "k = e"
    by simp
  then show ?case
    using "0.prems"(3) by (subst f64_exponent_from.simps) simp
next
  case (Suc n)
  then have lt: "e < k"
    by linarith
  then have k: "2 powi k \<le> \<bar>x\<bar>"
    using Suc.prems(2) by auto
  have "(2::real) powi (e + 1) \<le> 2 powi k"
    using lt by (intro power_int_increasing) simp_all
  then have le: "2 powi (e + 1) \<le> \<bar>x\<bar>"
    using k by linarith
  have "f64_exponent_from (e + 1) x = k"
    using Suc.hyps(2) lt k Suc.prems(3) by (intro Suc.hyps(1)) simp_all
  then show ?case
    using le by (subst f64_exponent_from.simps) simp
qed

lemma f64_exponent_eq:
  "- 1022 \<le> k \<Longrightarrow> 2 powi k \<le> \<bar>x\<bar> \<or> k = - 1022 \<Longrightarrow> \<bar>x\<bar> < 2 powi (k + 1)
   \<Longrightarrow> f64_exponent x = k"
  unfolding f64_exponent_def by (rule f64_exponent_from_eq)

lemma f64_exponent_cases:
  assumes "x \<noteq> 0"
  obtains (subnormal) "\<bar>x\<bar> < 2 powi (- 1022)" "f64_exponent x = - 1022"
  | (normal) k where "- 1022 \<le> k" "2 powi k \<le> \<bar>x\<bar>" "\<bar>x\<bar> < 2 powi (k + 1)" "f64_exponent x = k"
proof (cases "\<bar>x\<bar> < 2 powi (- 1022)")
  case True
  have "(2::real) powi (- 1022) \<le> 2 powi (- 1022 + 1)"
    by (intro power_int_increasing) simp_all
  then have "\<bar>x\<bar> < 2 powi (- 1022 + 1)"
    using True by linarith
  then have "f64_exponent x = - 1022"
    by (intro f64_exponent_eq) simp_all
  then show ?thesis
    using True subnormal by blast
next
  case False
  define k where "k = \<lfloor>log 2 \<bar>x\<bar>\<rfloor>"
  have pos: "0 < \<bar>x\<bar>"
    using assms by simp
  have powi: "(2::real) powi j = 2 powr real_of_int j" for j
    by (simp add: powr_real_of_int')
  have x: "\<bar>x\<bar> = 2 powr log 2 \<bar>x\<bar>"
    using pos by simp
  have "(2::real) powr real_of_int k \<le> 2 powr log 2 \<bar>x\<bar>"
    unfolding k_def by (intro powr_mono) simp_all
  then have lo: "2 powi k \<le> \<bar>x\<bar>"
    using x powi by simp
  have "log 2 \<bar>x\<bar> < real_of_int (k + 1)"
    unfolding k_def by linarith
  then have "(2::real) powr log 2 \<bar>x\<bar> < 2 powr real_of_int (k + 1)"
    by (intro powr_less_mono) simp_all
  then have hi: "\<bar>x\<bar> < 2 powi (k + 1)"
    using x powi by simp
  have "- 1022 \<le> k"
  proof (rule ccontr)
    assume "\<not> - 1022 \<le> k"
    then have "k + 1 \<le> - 1022"
      by simp
    then have "(2::real) powi (k + 1) \<le> 2 powi (- 1022)"
      by (intro power_int_increasing) simp_all
    then show False
      using hi False by linarith
  qed
  moreover from this lo hi have "f64_exponent x = k"
    by (intro f64_exponent_eq) simp_all
  ultimately show ?thesis
    using lo hi normal by blast
qed

lemma round_half_even_of_int: "round_half_even (of_int m) = m"
  by (simp add: round_half_even_def)

lemma round_half_even_cases:
  "round_half_even y = \<lfloor>y\<rfloor> \<and> y - of_int \<lfloor>y\<rfloor> \<le> 1 / 2
   \<or> round_half_even y = \<lfloor>y\<rfloor> + 1 \<and> 1 / 2 \<le> y - of_int \<lfloor>y\<rfloor>"
  by (auto simp add: round_half_even_def Let_def)

lemma round_half_even_error: "\<bar>of_int (round_half_even y) - y\<bar> \<le> 1 / 2"
proof -
  have "of_int \<lfloor>y\<rfloor> \<le> y" "y < of_int \<lfloor>y\<rfloor> + 1"
    by linarith+
  then show ?thesis
    using round_half_even_cases [of y] by auto
qed

lemma round_half_even_bound:
  assumes "\<bar>y\<bar> \<le> of_int n"
  shows "\<bar>round_half_even y\<bar> \<le> n"
proof -
  have "y \<le> of_int n" "of_int (- n) \<le> y"
    using assms by simp_all
  then have "\<lfloor>y\<rfloor> \<le> n" "- n \<le> \<lfloor>y\<rfloor>"
    by (simp_all add: floor_le_iff le_floor_iff)
  moreover have "round_half_even y = n \<or> round_half_even y \<le> n"
    if "\<lfloor>y\<rfloor> = n"
  proof -
    have "y = of_int n"
      using that \<open>y \<le> of_int n\<close> by linarith
    then show ?thesis
      by (simp add: round_half_even_of_int)
  qed
  ultimately show ?thesis
    using round_half_even_cases [of y] by (cases "\<lfloor>y\<rfloor> = n") auto
qed

lemma of_int_times_powi:
  "0 \<le> d \<Longrightarrow> real_of_int m * 2 powi d = of_int (m * 2 ^ nat d)"
  by (simp add: power_int_def)

lemma powi_div: "(2::real) powi a / 2 powi b = 2 powi (a - b)"
  by (simp add: power_int_diff)

lemma f64_round_representable:
  assumes r: "r = of_int m * 2 powi j" and j: "- 1074 \<le> j" and m: "\<bar>m\<bar> \<le> 2 ^ 53"
  shows "f64_round r = (if \<bar>r\<bar> < 2 ^ 1024 then Finite r else NonFinite)"
proof (cases "r = 0")
  case True
  then show ?thesis
    by (simp add: f64_round_def)
next
  case False
  have "\<exists>i. r / 2 powi (f64_exponent r - 52) = of_int i"
    using False
  proof (cases rule: f64_exponent_cases)
    case subnormal
    have "r / 2 powi (f64_exponent r - 52) = r / 2 powi (- 1022 - 52)"
      by (simp only: subnormal(2))
    also have "\<dots> = of_int m * (2 powi j / 2 powi (- 1022 - 52))"
      by (simp only: r times_divide_eq_right)
    also have "\<dots> = of_int m * 2 powi (j - (- 1022 - 52))"
      by (simp only: powi_div)
    also have "\<dots> = of_int (m * 2 ^ nat (j - (- 1022 - 52)))"
      using j by (intro of_int_times_powi) simp
    finally show ?thesis
      by blast
  next
    case (normal k)
    have "\<bar>r\<bar> = \<bar>real_of_int m\<bar> * 2 powi j"
      by (simp add: r abs_mult)
    also have "\<dots> \<le> 2 ^ 53 * 2 powi j"
    proof -
      have "\<bar>real_of_int m\<bar> \<le> real_of_int (2 ^ 53)"
        using m by (simp only: of_int_abs [symmetric] of_int_le_iff)
      then show ?thesis
        by (intro mult_right_mono) simp_all
    qed
    also have "\<dots> = 2 powi (j + 53)"
      by (simp add: power_int_add)
    finally have up: "\<bar>r\<bar> \<le> 2 powi (j + 53)" .
    have "(2::real) powi k \<le> 2 powi (j + 53)"
      using normal(2) up by linarith
    have kj: "k \<le> j + 53"
    proof (rule ccontr)
      assume "\<not> k \<le> j + 53"
      then have "(2::real) powi (j + 53) < 2 powi k"
        by (intro power_int_strict_increasing) simp_all
      then show False
        using \<open>(2::real) powi k \<le> 2 powi (j + 53)\<close> by linarith
    qed
    show ?thesis
    proof (cases "k = j + 53")
      case False
      then have d: "0 \<le> j - k + 52"
        using kj by simp
      have "r / 2 powi (f64_exponent r - 52) = r / 2 powi (k - 52)"
        by (simp only: normal(4))
      also have "\<dots> = of_int m * (2 powi j / 2 powi (k - 52))"
        by (simp only: r times_divide_eq_right)
      also have "\<dots> = of_int m * 2 powi (j - k + 52)"
        by (simp only: powi_div) (simp add: algebra_simps)
      also have "\<dots> = of_int (m * 2 ^ nat (j - k + 52))"
        using d by (intro of_int_times_powi)
      finally show ?thesis
        by blast
    next
      case True
      have "2 powi (j + 53) \<le> \<bar>real_of_int m\<bar> * 2 powi j"
        using normal(2) True by (simp add: r abs_mult)
      then have "2 ^ 53 * 2 powi j \<le> \<bar>real_of_int m\<bar> * 2 powi j"
        by (simp add: power_int_add)
      then have "(2::real) ^ 53 \<le> \<bar>real_of_int m\<bar>"
        by simp
      then have "real_of_int (2 ^ 53) \<le> real_of_int \<bar>m\<bar>"
        by simp
      then have "2 ^ 53 \<le> \<bar>m\<bar>"
        by (simp only: of_int_le_iff)
      then have "\<bar>m\<bar> = 2 ^ 53"
        using m by simp
      then have "even m"
        by (metis even_abs_add_iff even_add even_numeral even_power zero_less_numeral)
      then obtain i where i: "m = 2 * i"
        by (elim evenE)
      have "r / 2 powi (f64_exponent r - 52) = r / 2 powi (k - 52)"
        by (simp only: normal(4))
      also have "\<dots> = of_int m * (2 powi j / 2 powi (k - 52))"
        by (simp only: r times_divide_eq_right)
      also have "\<dots> = of_int m * 2 powi (- 1)"
        by (simp only: powi_div) (simp add: True)
      also have "\<dots> = of_int i"
        by (simp add: i)
      finally show ?thesis
        by blast
    qed
  qed
  then obtain i where i: "r / 2 powi (f64_exponent r - 52) = of_int i"
    by blast
  have "r = of_int i * 2 powi (f64_exponent r - 52)"
    using i by (subst (asm) nonzero_divide_eq_eq) simp_all
  then have "of_int (round_half_even (r / 2 powi (f64_exponent r - 52)))
      * 2 powi (f64_exponent r - 52) = r"
    by (simp only: i round_half_even_of_int)
  then show ?thesis
    using False by (simp add: f64_round_def Let_def)
qed

lemma f64_round_exact:
  assumes "r = of_int m * 2 powi j" and "- 1074 \<le> j" and "\<bar>m\<bar> \<le> 2 ^ 53"
    and "\<bar>r\<bar> < 2 ^ 1024"
  shows "f64_round r = Finite r"
  using f64_round_representable [OF assms(1,2,3)] assms(4) by simp

lemma f64_round_structure:
  assumes "f64_round x = Finite r"
  shows "\<exists>m j. r = of_int m * 2 powi j \<and> - 1074 \<le> j \<and> \<bar>m\<bar> \<le> 2 ^ 53 \<and> \<bar>r\<bar> < 2 ^ 1024"
proof (cases "x = 0")
  case True
  then have "r = of_int 0 * 2 powi 0"
    using assms by (simp add: f64_round_def)
  then show ?thesis
    by (intro exI [where x = 0] conjI) simp_all
next
  case False
  define j where "j = f64_exponent x - 52"
  define m where "m = round_half_even (x / 2 powi j)"
  have r: "r = of_int m * 2 powi j" and fin: "\<bar>r\<bar> < 2 ^ 1024"
    using assms False unfolding m_def j_def
    by (simp_all add: f64_round_def Let_def split: if_splits)
  have "- 1022 \<le> f64_exponent x \<and> \<bar>x\<bar> < 2 powi (f64_exponent x + 1)"
    using False
  proof (cases rule: f64_exponent_cases)
    case subnormal
    have "(2::real) powi (- 1022) \<le> 2 powi (- 1022 + 1)"
      by (intro power_int_increasing) simp_all
    then have "\<bar>x\<bar> < 2 powi (- 1022 + 1)"
      using subnormal(1) by linarith
    then show ?thesis
      by (simp only: subnormal(2)) simp
  next
    case (normal k)
    then show ?thesis
      by simp
  qed
  then have j: "- 1074 \<le> j" and x: "\<bar>x\<bar> < 2 powi (j + 53)"
    by (simp_all add: j_def add.commute)
  have "\<bar>x / 2 powi j\<bar> = \<bar>x\<bar> / 2 powi j"
    by simp
  also have "\<dots> \<le> 2 powi (j + 53) / 2 powi j"
    using x by (intro divide_right_mono) simp_all
  also have "\<dots> = real_of_int (2 ^ 53)"
    by (simp only: powi_div) simp
  finally have "\<bar>m\<bar> \<le> 2 ^ 53"
    unfolding m_def by (rule round_half_even_bound)
  then show ?thesis
    using r j fin by blast
qed

lemma f64_round_idem: "f64_round x = Finite r \<Longrightarrow> f64_round r = Finite r"
  using f64_round_structure [of x r] f64_round_exact by blast

lemma f64_round_relative_error:
  assumes lo: "2 powi (- 1022) \<le> \<bar>x\<bar>" and hi: "\<bar>x\<bar> < 2 powi 1023"
  shows "\<exists>r. f64_round x = Finite r \<and> \<bar>r - x\<bar> \<le> 2 powi (- 53) * \<bar>x\<bar>"
proof -
  have "(0::real) < 2 powi (- 1022)"
    by simp
  then have nz: "x \<noteq> 0"
    using lo by auto
  from nz show ?thesis
  proof (cases rule: f64_exponent_cases)
    case subnormal
    then show ?thesis
      using lo by linarith
  next
    case (normal k)
    define q :: real where "q = 2 powi (k - 52)"
    define m where "m = round_half_even (x / q)"
    have q: "0 < q"
      by (simp add: q_def)
    have "(2::real) powi k < 2 powi 1023"
      using normal(2) hi by linarith
    have k: "k < 1023"
    proof (rule ccontr)
      assume "\<not> k < 1023"
      then have "(2::real) powi 1023 \<le> 2 powi k"
        by (intro power_int_increasing) simp_all
      then show False
        using \<open>(2::real) powi k < 2 powi 1023\<close> by linarith
    qed
    have "\<bar>of_int m - x / q\<bar> \<le> 1 / 2"
      unfolding m_def by (rule round_half_even_error)
    then have "\<bar>of_int m - x / q\<bar> * q \<le> 1 / 2 * q"
      using q by (intro mult_right_mono) simp_all
    moreover have "\<bar>of_int m - x / q\<bar> * q = \<bar>of_int m * q - x\<bar>"
    proof -
      have "\<bar>of_int m - x / q\<bar> * q = \<bar>(of_int m - x / q) * q\<bar>"
        using q by (simp add: abs_mult)
      also have "(of_int m - x / q) * q = of_int m * q - x"
        using q by (simp add: field_simps)
      finally show ?thesis .
    qed
    moreover have "1 / 2 * q = 2 powi (- 53) * 2 powi k"
      unfolding q_def by (simp add: power_int_diff power_int_minus)
    ultimately have err: "\<bar>of_int m * q - x\<bar> \<le> 2 powi (- 53) * 2 powi k"
      by simp
    also have "\<dots> \<le> 2 powi (- 53) * \<bar>x\<bar>"
      using normal(2) by (intro mult_left_mono) simp_all
    finally have rel: "\<bar>of_int m * q - x\<bar> \<le> 2 powi (- 53) * \<bar>x\<bar>" .
    have "(2::real) powi (- 53) * 2 powi k \<le> 1 * 2 powi k"
      by (intro mult_right_mono) (simp_all add: power_int_minus field_simps)
    then have "(2::real) powi (- 53) * 2 powi k \<le> 2 powi k"
      by (simp only: mult_1)
    with err have "\<bar>of_int m * q - x\<bar> \<le> 2 powi k"
      by (rule order_trans)
    then have "\<bar>of_int m * q\<bar> \<le> \<bar>x\<bar> + 2 powi k"
      by linarith
    also have "\<dots> < 2 powi 1023 + 2 powi 1023"
    proof -
      have "(2::real) powi k \<le> 2 powi 1023"
        using k by (intro power_int_increasing) simp_all
      then show ?thesis
        using hi by linarith
    qed
    also have "\<dots> = 2 ^ 1024"
      by simp
    finally have fin: "\<bar>of_int m * q\<bar> < 2 ^ 1024" .
    have "f64_round x = Finite (of_int m * q)"
      using nz fin unfolding m_def q_def
      by (simp add: f64_round_def Let_def normal(4))
    then show ?thesis
      using rel by blast
  qed
qed

lemma quotient_relative_error:
  fixes a b p s r u :: real
  assumes u: "0 < u" "u \<le> 1 / 8" and a: "0 < a" and b: "0 < b"
    and p: "\<bar>p - a\<bar> \<le> u * a" and s: "\<bar>s - b\<bar> \<le> u * b"
    and r: "\<bar>r - p / s\<bar> \<le> u * \<bar>p / s\<bar>"
  shows "\<bar>r - a / b\<bar> \<le> 4 * u * (a / b)"
proof -
  define X where "X = a / b"
  have X: "0 < X"
    using a b by (simp add: X_def)
  have p1: "(1 - u) * a \<le> p" and p2: "p \<le> (1 + u) * a"
    using p by (simp_all add: abs_le_iff algebra_simps)
  have s1: "(1 - u) * b \<le> s" and s2: "s \<le> (1 + u) * b"
    using s by (simp_all add: abs_le_iff algebra_simps)
  have u1: "0 < 1 - u"
    using u by simp
  have ppos: "0 < p"
    using p1 u1 a by (meson less_le_trans mult_pos_pos)
  have spos: "0 < s"
    using s1 u1 b by (meson less_le_trans mult_pos_pos)
  have qpos: "0 < p / s"
    using ppos spos by simp
  have "p / s \<le> ((1 + u) * a) / ((1 - u) * b)"
    using ppos p2 s1 u1 b by (intro frac_le) simp_all
  also have "\<dots> = (1 + u) / (1 - u) * X"
    by (simp add: X_def)
  finally have q2: "p / s \<le> (1 + u) / (1 - u) * X" .
  have "0 \<le> p"
    using ppos by simp
  then have "((1 - u) * a) / ((1 + u) * b) \<le> p / s"
    using p1 spos s2 by (rule frac_le)
  moreover have "((1 - u) * a) / ((1 + u) * b) = (1 - u) / (1 + u) * X"
    by (simp add: X_def)
  ultimately have q1: "(1 - u) / (1 + u) * X \<le> p / s"
    by simp
  have "\<bar>p / s\<bar> = p / s"
    using qpos by (rule abs_of_pos)
  then have "\<bar>r - p / s\<bar> \<le> u * (p / s)"
    using r by simp
  then have r1: "(1 - u) * (p / s) \<le> r" and r2: "r \<le> (1 + u) * (p / s)"
    by (simp_all only: abs_le_iff left_diff_distrib distrib_right mult_1) linarith+
  have "r \<le> (1 + u) * ((1 + u) / (1 - u) * X)"
    using r2 q2 u by (meson add_pos_pos less_eq_real_def mult_left_mono order_trans zero_less_one)
  also have "\<dots> = ((1 + u) * (1 + u) / (1 - u)) * X"
    by simp
  also have "\<dots> \<le> (1 + 4 * u) * X"
  proof -
    have "0 \<le> u * (1 - 5 * u)"
      using u by (intro mult_nonneg_nonneg) simp_all
    then have "(1 + u) * (1 + u) \<le> (1 + 4 * u) * (1 - u)"
      by (simp add: algebra_simps)
    then have "(1 + u) * (1 + u) / (1 - u) \<le> 1 + 4 * u"
      using u1 by (simp add: pos_divide_le_eq)
    then show ?thesis
      using X by (intro mult_right_mono) simp_all
  qed
  finally have up: "r \<le> (1 + 4 * u) * X" .
  have "(1 - 4 * u) * X \<le> ((1 - u) * (1 - u) / (1 + u)) * X"
  proof -
    have "0 \<le> u * (1 + 5 * u)"
      using u by (intro mult_nonneg_nonneg) simp_all
    then have "(1 - 4 * u) * (1 + u) \<le> (1 - u) * (1 - u)"
      by (simp add: algebra_simps)
    then have "1 - 4 * u \<le> (1 - u) * (1 - u) / (1 + u)"
      using u by (simp add: pos_le_divide_eq)
    then show ?thesis
      using X by (intro mult_right_mono) simp_all
  qed
  also have "\<dots> = (1 - u) * ((1 - u) / (1 + u) * X)"
    by simp
  also have "\<dots> \<le> (1 - u) * (p / s)"
    using q1 u1 by (intro mult_left_mono) simp_all
  also have "\<dots> \<le> r"
    by (rule r1)
  finally have lo: "(1 - 4 * u) * X \<le> r" .
  from up lo show ?thesis
    unfolding X_def [symmetric] by (simp add: abs_le_iff algebra_simps)
qed

lemma f64_round_zero: "f64_round 0 = Finite 0"
  by (simp add: f64_round_def)

lemma f64_stored_round: "f64_stored (f64_round x)"
proof (cases "f64_round x")
  case (Finite r)
  then show ?thesis
    using f64_round_idem [of x r] by (simp add: f64_stored_def)
next
  case NonFinite
  then show ?thesis
    by (simp add: f64_stored_def)
qed

lemma f64_stored_store: "f64_stored (f64_store v)"
  by (cases v) (simp_all add: f64_stored_round, simp add: f64_stored_def)

lemma f64_stored_Finite: "f64_stored (Finite r) \<longleftrightarrow> f64_round r = Finite r"
  by (simp add: f64_stored_def)

lemma f64_add_zero_left: "f64_stored v \<Longrightarrow> f64_add (Finite 0) v = v"
  by (cases v) (simp_all add: f64_stored_def)


lemma f64_round_double:
  assumes "f64_round r = Finite r"
  shows "f64_round (2 * r) = (if \<bar>2 * r\<bar> < 2 ^ 1024 then Finite (2 * r) else NonFinite)"
proof -
  from f64_round_structure [OF assms] obtain m j where
    r: "r = of_int m * 2 powi j" and j: "- 1074 \<le> j" and m: "\<bar>m\<bar> \<le> 2 ^ 53"
    by blast
  have "2 * r = of_int m * 2 powi (j + 1)"
    by (simp add: r power_int_add)
  moreover have "- 1074 \<le> j + 1"
    using j by simp
  ultimately show ?thesis
    using m by (rule f64_round_representable)
qed


lemma f64_add_zero_right: "f64_add (f64_round x) (Finite 0) = f64_round x"
proof (cases "f64_round x")
  case (Finite r)
  then show ?thesis
    using f64_round_idem [of x r] by simp
next
  case NonFinite
  then show ?thesis
    by simp
qed

lemma f64_mul_add_zero: "f64_add (f64_mul a b) (Finite 0) = f64_mul a b"
  by (cases a; cases b) (simp_all add: f64_add_zero_right)

text \<open>The rules that evaluate a rounding, given the binary exponent of the exact value.\<close>

lemmas f64_eval = f64_round_def round_half_even_def Let_def is_f64_def wrap64_def

section \<open>Properties of the Michaelis-Menten equation\<close>

lemma michaelis_menten_finite:
  assumes "0 \<le> S" and "0 < K_m"
  shows "michaelis_menten S V_max K_m = Finite (V_max * S / (K_m + S))"
  using assms by (simp add: michaelis_menten_def)

lemma michaelis_menten_mono_real:
  fixes V K S1 S2 :: real
  assumes "0 < V" and "0 < K" and "0 \<le> S1" and "S1 \<le> S2"
  shows "V * S1 / (K + S1) \<le> V * S2 / (K + S2)"
proof -
  have "K * S1 \<le> K * S2"
    using assms by (simp add: mult_left_mono)
  then have "S1 * (K + S2) \<le> S2 * (K + S1)"
    by (simp add: algebra_simps)
  then have "S1 / (K + S1) \<le> S2 / (K + S2)"
    using assms by (simp add: frac_le_eq field_simps)
  then show ?thesis
    using mult_left_mono[of "S1 / (K + S1)" "S2 / (K + S2)" V] assms by simp
qed

lemma michaelis_menten_limit_real:
  fixes V K :: real
  assumes "0 < K"
  shows "((\<lambda>S. V * S / (K + S)) \<longlongrightarrow> V) at_top"
proof -
  have "((\<lambda>S. V - V * K / (K + S)) \<longlongrightarrow> V - 0) at_top"
    by (intro tendsto_diff tendsto_const tendsto_divide_0[OF tendsto_const]
        filterlim_at_top_imp_at_infinity filterlim_tendsto_add_at_top[OF tendsto_const]
        filterlim_ident)
  then have a: "((\<lambda>S. V - V * K / (K + S)) \<longlongrightarrow> V) at_top"
    by simp
  have ev: "eventually (\<lambda>S. V - V * K / (K + S) = V * S / (K + S)) at_top"
    unfolding eventually_at_top_linorder
  proof (intro exI allI impI)
    fix S :: real
    assume "0 \<le> S"
    then have "K + S \<noteq> 0"
      using assms by linarith
    then show "V - V * K / (K + S) = V * S / (K + S)"
      by (simp add: field_simps)
  qed
  show ?thesis
    by (rule Lim_transform_eventually[OF a ev])
qed

lemma michaelis_menten_np_error:
  assumes V: "2 powi (- 300) \<le> V" "V \<le> 2 powi 300"
    and K: "2 powi (- 300) \<le> K" "K \<le> 2 powi 300"
    and S: "2 powi (- 300) \<le> S" "S \<le> 2 powi 300"
  shows "\<exists>r. michaelis_menten_np (F64 S) (F64 V) (F64 K) = Finite r
           \<and> \<bar>r - V * S / (K + S)\<bar> \<le> 2 powi (- 51) * (V * S / (K + S))"
proof -
  define u :: real where "u = 2 powi (- 53)"
  have u: "0 < u" "u \<le> 1 / 8"
    by (simp_all add: u_def power_int_minus field_simps)
  have pos: "(0::real) < 2 powi (- 300)"
    by simp
  have Vp: "0 < V" and Kp: "0 < K" and Sp: "0 < S"
    using pos V(1) K(1) S(1) by linarith+
  have a_lo: "2 powi (- 600) \<le> V * S"
  proof -
    have "(2::real) powi (- 300) * 2 powi (- 300) \<le> V * S"
      using V(1) S(1) by (intro mult_mono) simp_all
    then show ?thesis
      by (simp add: power_int_add [symmetric])
  qed
  have a_hi: "V * S \<le> 2 powi 600"
  proof -
    have "V * S \<le> 2 powi 300 * 2 powi 300"
      using V(2) S(2) Vp Sp by (intro mult_mono) simp_all
    then show ?thesis
      by (simp add: power_int_add [symmetric])
  qed
  have b_lo: "2 powi (- 300) \<le> K + S"
    using K(1) Sp by linarith
  have b_hi: "K + S \<le> 2 powi 301"
  proof -
    have "K + S \<le> 2 powi 300 + 2 powi 300"
      using K(2) S(2) by linarith
    then show ?thesis
      by simp
  qed
  have a: "0 < V * S" and b: "0 < K + S"
    using Vp Kp Sp by simp_all
  have "\<exists>p. f64_round (V * S) = Finite p \<and> \<bar>p - V * S\<bar> \<le> 2 powi (- 53) * \<bar>V * S\<bar>"
  proof (rule f64_round_relative_error)
    have "(2::real) powi (- 1022) \<le> 2 powi (- 600)"
      by (intro power_int_increasing) simp_all
    then show "2 powi (- 1022) \<le> \<bar>V * S\<bar>"
      using a_lo a by linarith
    have "(2::real) powi 600 < 2 powi 1023"
      by (intro power_int_strict_increasing) simp_all
    then show "\<bar>V * S\<bar> < 2 powi 1023"
      using a_hi a by linarith
  qed
  then obtain p where p: "f64_round (V * S) = Finite p" and pe: "\<bar>p - V * S\<bar> \<le> u * (V * S)"
    using a by (auto simp add: u_def)
  have "\<exists>s. f64_round (K + S) = Finite s \<and> \<bar>s - (K + S)\<bar> \<le> 2 powi (- 53) * \<bar>K + S\<bar>"
  proof (rule f64_round_relative_error)
    have "(2::real) powi (- 1022) \<le> 2 powi (- 300)"
      by (intro power_int_increasing) simp_all
    then show "2 powi (- 1022) \<le> \<bar>K + S\<bar>"
      using b_lo b by linarith
    have "(2::real) powi 301 < 2 powi 1023"
      by (intro power_int_strict_increasing) simp_all
    then show "\<bar>K + S\<bar> < 2 powi 1023"
      using b_hi b by linarith
  qed
  then obtain s where s: "f64_round (K + S) = Finite s" and se: "\<bar>s - (K + S)\<bar> \<le> u * (K + S)"
    using b by (auto simp add: u_def)
  have half: "1 / 2 \<le> 1 - u" and two: "1 + u \<le> 2"
    using u by simp_all
  have p_lo: "2 powi (- 601) \<le> p"
  proof -
    have "(2::real) powi (- 601) = 1 / 2 * 2 powi (- 600)"
      by (simp add: power_int_minus)
    also have "\<dots> \<le> (1 - u) * (V * S)"
      using half a_lo by (intro mult_mono) simp_all
    also have "\<dots> \<le> p"
      using pe by (simp add: abs_le_iff algebra_simps)
    finally show ?thesis .
  qed
  have p_hi: "p \<le> 2 powi 601"
  proof -
    have "p \<le> (1 + u) * (V * S)"
      using pe by (simp add: abs_le_iff algebra_simps)
    also have "\<dots> \<le> 2 * 2 powi 600"
      using two a_hi a u by (intro mult_mono) simp_all
    also have "\<dots> = 2 powi 601"
      by simp
    finally show ?thesis .
  qed
  have s_lo: "2 powi (- 301) \<le> s"
  proof -
    have "(2::real) powi (- 301) = 1 / 2 * 2 powi (- 300)"
      by (simp add: power_int_minus)
    also have "\<dots> \<le> (1 - u) * (K + S)"
      using half b_lo by (intro mult_mono) simp_all
    also have "\<dots> \<le> s"
      using se by (simp add: abs_le_iff algebra_simps)
    finally show ?thesis .
  qed
  have s_hi: "s \<le> 2 powi 302"
  proof -
    have "s \<le> (1 + u) * (K + S)"
      using se by (simp add: abs_le_iff algebra_simps)
    also have "\<dots> \<le> 2 * 2 powi 301"
      using two b_hi b u by (intro mult_mono) simp_all
    also have "\<dots> = 2 powi 302"
      by simp
    finally show ?thesis .
  qed
  have ppos: "0 < p" and spos: "0 < s"
    using p_lo s_lo by (simp_all add: less_le_trans [OF _ p_lo] less_le_trans [OF _ s_lo])
  have q_lo: "2 powi (- 903) \<le> p / s"
  proof -
    have "(2::real) powi (- 601) / 2 powi 302 \<le> p / s"
      using p_lo s_hi spos ppos by (intro frac_le) simp_all
    then show ?thesis
      by (simp only: powi_div) simp
  qed
  have q_hi: "p / s \<le> 2 powi 902"
  proof -
    have "p / s \<le> 2 powi 601 / 2 powi (- 301)"
      using p_hi s_lo ppos by (intro frac_le) simp_all
    then show ?thesis
      by (simp only: powi_div) simp
  qed
  have qpos: "0 < p / s"
    using ppos spos by simp
  have "\<exists>r. f64_round (p / s) = Finite r \<and> \<bar>r - p / s\<bar> \<le> 2 powi (- 53) * \<bar>p / s\<bar>"
  proof (rule f64_round_relative_error)
    have "(2::real) powi (- 1022) \<le> 2 powi (- 903)"
      by (intro power_int_increasing) simp_all
    then show "2 powi (- 1022) \<le> \<bar>p / s\<bar>"
      using q_lo qpos by linarith
    have "(2::real) powi 902 < 2 powi 1023"
      by (intro power_int_strict_increasing) simp_all
    then show "\<bar>p / s\<bar> < 2 powi 1023"
      using q_hi qpos by linarith
  qed
  then obtain r where r: "f64_round (p / s) = Finite r" and re: "\<bar>r - p / s\<bar> \<le> u * \<bar>p / s\<bar>"
    by (auto simp add: u_def)
  have "\<bar>r - V * S / (K + S)\<bar> \<le> 4 * u * (V * S / (K + S))"
    using u a b pe se re by (rule quotient_relative_error)
  moreover have "4 * u = 2 powi (- 51)"
    by (simp add: u_def power_int_minus)
  moreover have "michaelis_menten_np (F64 S) (F64 V) (F64 K) = Finite r"
    using spos by (simp add: michaelis_menten_np_def p s r)
  ultimately show ?thesis
    by auto
qed


text \<open>
  Claim C2, as stated, fails for the function the notebooks run.  For the \<open>float64\<close>
  arguments \<open>V_max = 5.9\<close> and \<open>K_m = S = 44.4\<close> the value is \<open>2.9499999999999997\<close> and not
  \<open>V_max / 2 = 2.95\<close>, because the product \<open>5.9 * 44.4\<close> is rounded before the division.
  For \<open>V_max = 100\<close> and \<open>K_m = 50\<close> the value at \<open>S = 16.1\<close> is \<open>24.357034795764\<close>, and at
  the next \<open>float64\<close> after \<open>16.1\<close> it is smaller, \<open>24.357034795763997\<close>.  For the integers
  \<open>V_max = 100\<close>, \<open>K_m = 50\<close> and the \<open>int64\<close> concentration \<open>10 ^ 17\<close> the product
  \<open>V_max * S\<close> wraps around and the value is \<open>-84.46744073709547\<close>, below the value
  \<open>16.666666666666668\<close> at \<open>S = 10\<close>.
\<close>

theorem michaelis_menten_rounding_counterexample:
  "is_f64 (3321404725185741 / 2 ^ 49) \<and> is_f64 (6248744482976563 / 2 ^ 47)
   \<and> michaelis_menten_np (F64 (6248744482976563 / 2 ^ 47)) (F64 (3321404725185741 / 2 ^ 49)) (F64 (6248744482976563 / 2 ^ 47))
       = Finite (6642809450371481 / 2 ^ 51)
   \<and> (6642809450371481 / 2 ^ 51 :: real) \<noteq> (3321404725185741 / 2 ^ 49) / 2
   \<and> is_f64 (2265873562520781 / 2 ^ 47) \<and> is_f64 (4531747125041563 / 2 ^ 48)
   \<and> (2265873562520781 / 2 ^ 47 :: real) < 4531747125041563 / 2 ^ 48
   \<and> michaelis_menten_np (F64 (2265873562520781 / 2 ^ 47)) (F64 100) (F64 50) = Finite (3427947900939155 / 2 ^ 47)
   \<and> michaelis_menten_np (F64 (4531747125041563 / 2 ^ 48)) (F64 100) (F64 50) = Finite (6855895801878309 / 2 ^ 48)
   \<and> (6855895801878309 / 2 ^ 48 :: real) < 3427947900939155 / 2 ^ 47
   \<and> michaelis_menten_np (I64 10) (I64 100) (I64 50) = Finite (4691249611844267 / 2 ^ 48)
   \<and> michaelis_menten_np (I64 (10 ^ 17)) (I64 100) (I64 50) = Finite (- (2971933864285333 / 2 ^ 45))"
  by (simp add: michaelis_menten_np_def f64_eval
      f64_exponent_eq [of "1"] f64_exponent_eq [of "2"] f64_exponent_eq [of "4"]
      f64_exponent_eq [of "5"] f64_exponent_eq [of "6"] f64_exponent_eq [of "8"]
      f64_exponent_eq [of "9"] f64_exponent_eq [of "10"] f64_exponent_eq [of "56"]
      f64_exponent_eq [of "62"])

text \<open>
  Claim C2, amended.  For \<open>V_max > 0\<close>, \<open>K_m > 0\<close> and \<open>0 \<le> S1 \<le> S2\<close> the quotient
  \<open>V_max * S / (K_m + S)\<close> is at \<open>S1\<close> at most what it is at \<open>S2\<close>, it tends to \<open>V_max\<close> as
  \<open>S\<close> tends to infinity, and at \<open>S = K_m\<close> it is \<open>V_max / 2\<close>.  \<open>michaelis_menten\<close>
  computes this quotient with three rounded \<open>float64\<close> operations: for \<open>float64\<close>
  arguments between \<open>2 ^ -300\<close> and \<open>2 ^ 300\<close> it returns a number that differs from the
  quotient by at most the relative error \<open>2 ^ -51\<close>.
\<close>

theorem michaelis_menten_rounded:
  assumes "0 < V_max" and "0 < K_m" and "0 \<le> S1" and "S1 \<le> S2"
  shows "V_max * S1 / (K_m + S1) \<le> V_max * S2 / (K_m + S2)
       \<and> ((\<lambda>S. V_max * S / (K_m + S)) \<longlongrightarrow> V_max) at_top
       \<and> V_max * K_m / (K_m + K_m) = V_max / 2
       \<and> (2 powi (- 300) \<le> V_max \<and> V_max \<le> 2 powi 300
            \<and> 2 powi (- 300) \<le> K_m \<and> K_m \<le> 2 powi 300
            \<and> 2 powi (- 300) \<le> S2 \<and> S2 \<le> 2 powi 300
            \<longrightarrow> (\<exists>r. michaelis_menten_np (F64 S2) (F64 V_max) (F64 K_m) = Finite r
                   \<and> \<bar>r - V_max * S2 / (K_m + S2)\<bar>
                       \<le> 2 powi (- 51) * (V_max * S2 / (K_m + S2))))"
proof -
  have mono: "V_max * S1 / (K_m + S1) \<le> V_max * S2 / (K_m + S2)"
    using assms by (rule michaelis_menten_mono_real)
  have lim: "((\<lambda>S. V_max * S / (K_m + S)) \<longlongrightarrow> V_max) at_top"
    using assms(2) by (rule michaelis_menten_limit_real)
  have half: "V_max * K_m / (K_m + K_m) = V_max / 2"
    using assms(2) by simp
  have rounded: "\<exists>r. michaelis_menten_np (F64 S2) (F64 V_max) (F64 K_m) = Finite r
      \<and> \<bar>r - V_max * S2 / (K_m + S2)\<bar> \<le> 2 powi (- 51) * (V_max * S2 / (K_m + S2))"
    if "2 powi (- 300) \<le> V_max \<and> V_max \<le> 2 powi 300
        \<and> 2 powi (- 300) \<le> K_m \<and> K_m \<le> 2 powi 300
        \<and> 2 powi (- 300) \<le> S2 \<and> S2 \<le> 2 powi 300"
    using that by (intro michaelis_menten_np_error) simp_all
  from mono lim half rounded show ?thesis
    by blast
qed


theorem michaelis_menten_rounded_witness:
  "(0::real) < 100 \<and> (0::real) < 50 \<and> (0::real) \<le> 10 \<and> (10::real) \<le> 20
   \<and> (100::real) * 10 / (50 + 10) \<le> 100 * 20 / (50 + 20)
   \<and> ((\<lambda>S::real. 100 * S / (50 + S)) \<longlongrightarrow> 100) at_top
   \<and> (100::real) * 50 / (50 + 50) = 100 / 2
   \<and> (2::real) powi (- 300) \<le> 100 \<and> (100::real) \<le> 2 powi 300
   \<and> (2::real) powi (- 300) \<le> 50 \<and> (50::real) \<le> 2 powi 300
   \<and> (2::real) powi (- 300) \<le> 20 \<and> (20::real) \<le> 2 powi 300
   \<and> (\<exists>r. michaelis_menten_np (F64 20) (F64 100) (F64 50) = Finite r
          \<and> \<bar>r - 100 * 20 / (50 + 20)\<bar> \<le> 2 powi (- 51) * (100 * 20 / (50 + 20)))"
proof -
  have h: "(0::real) < 100" "(0::real) < 50" "(0::real) \<le> 10" "(10::real) \<le> 20"
    by simp_all
  have b: "(2::real) powi (- 300) \<le> 100" "(100::real) \<le> 2 powi 300"
    "(2::real) powi (- 300) \<le> 50" "(50::real) \<le> 2 powi 300"
    "(2::real) powi (- 300) \<le> 20" "(20::real) \<le> 2 powi 300"
    by (simp_all add: power_int_minus field_simps)
  note t = michaelis_menten_rounded [OF h]
  have r: "\<exists>r. michaelis_menten_np (F64 20) (F64 100) (F64 50) = Finite r
          \<and> \<bar>r - 100 * 20 / (50 + 20)\<bar> \<le> 2 powi (- 51) * (100 * 20 / (50 + 20))"
    using t [THEN conjunct2, THEN conjunct2, THEN conjunct2] b by blast
  from h t [THEN conjunct1] t [THEN conjunct2, THEN conjunct1]
    t [THEN conjunct2, THEN conjunct2, THEN conjunct1] b r
  show ?thesis
    by (intro conjI)
qed

section \<open>The generator without noise\<close>

lemma map2_fadd_zero_noise:
  "map2 fadd (map (\<lambda>t. Finite (h t)) time)
     (map Finite (map (\<lambda>i. 0 + 0 * g i) [0..<length time]))
   = map (\<lambda>t. Finite (h t)) time"
  by (rule nth_equalityI) simp_all

lemma simulate_absorbance_zero_noise:
  assumes "K_m + S \<noteq> 0"
  shows "simulate_absorbance V_max K_m S time epsilon path_length 0 g =
     Inr (map (\<lambda>t. Finite (beer_lambert V_max K_m S epsilon path_length t)) time,
          (\<lambda>i. g (i + length time)))"
proof -
  have mm: "michaelis_menten S V_max K_m = Finite (V_max * S / (K_m + S))"
    using assms by (simp add: michaelis_menten_def)
  have A: "map (\<lambda>p. fmul (Finite (epsilon * path_length)) p)
             (map (\<lambda>t. fmul (michaelis_menten S V_max K_m) (Finite t)) time)
           = map (\<lambda>t. Finite (beer_lambert V_max K_m S epsilon path_length t)) time"
    by (simp add: mm mult.assoc beer_lambert_def)
  show ?thesis
    unfolding simulate_absorbance_def Let_def A random_normal_def
    using map2_fadd_zero_noise[of "beer_lambert V_max K_m S epsilon path_length" time g]
    by simp
qed

lemma simulate_absorbance_noiseless_exact:
  assumes "K_m + S \<noteq> 0"
  shows "simulate_absorbance V_max K_m S time epsilon path_length 0 g =
     Inr (map (\<lambda>t. Finite (epsilon * path_length * (V_max * S / (K_m + S)) * t)) time,
          (\<lambda>i. g (i + length time)))"
  using simulate_absorbance_zero_noise[OF assms] by (simp add: beer_lambert_def)

lemma rows_of_noiseless_absorbance:
  "map (\<lambda>(t, absorbance).
          \<lparr>Time = t, Absorbance = absorbance, Substrate_Concentration = S, Replicate = r\<rparr>)
     (zip time (map (\<lambda>t. Finite (beer_lambert V_max K_m S epsilon path_length t)) time))
   = noiseless_rows V_max K_m S time epsilon path_length r"
  by (induction time) (simp_all add: noiseless_rows_def)

lemma simulate_replicates_noiseless:
  assumes "K_m + S \<noteq> 0"
  shows "\<exists>g'. simulate_replicates V_max K_m S time epsilon path_length 0 rs g
     = Inr (concat (map (noiseless_rows V_max K_m S time epsilon path_length) rs), g')"
proof (induction rs arbitrary: g)
  case Nil
  then show ?case by simp
next
  case (Cons r rs)
  obtain g' where
    "simulate_replicates V_max K_m S time epsilon path_length 0 rs (\<lambda>i. g (i + length time))
       = Inr (concat (map (noiseless_rows V_max K_m S time epsilon path_length) rs), g')"
    using Cons.IH by blast
  then show ?case
    by (simp add: simulate_absorbance_zero_noise[OF assms] rows_of_noiseless_absorbance)
qed

lemma save_simulated_absorbance_data_noiseless:
  assumes "\<forall>S\<in>set Ss. K_m + S \<noteq> 0"
  shows "\<exists>g'. save_simulated_absorbance_data V_max K_m Ss time epsilon path_length 0 n g
     = Inr (noiseless_table V_max K_m Ss time epsilon path_length n, g')"
  using assms
proof (induction Ss arbitrary: g)
  case Nil
  then show ?case by (simp add: noiseless_table_def)
next
  case (Cons S Ss)
  then have S: "K_m + S \<noteq> 0"
    by simp
  obtain g1 where g1: "simulate_replicates V_max K_m S time epsilon path_length 0 [1..n] g
     = Inr (concat (map (noiseless_rows V_max K_m S time epsilon path_length) [1..n]), g1)"
    using simulate_replicates_noiseless[OF S] by blast
  obtain g2 where "save_simulated_absorbance_data V_max K_m Ss time epsilon path_length 0 n g1
     = Inr (noiseless_table V_max K_m Ss time epsilon path_length n, g2)"
    using Cons by force
  then show ?case
    using g1 by (simp add: noiseless_table_def)
qed

subsection \<open>The generator in float64 arithmetic\<close>

lemma random_normal_f64_zero:
  "random_normal_f64 0 0 n g = Inr (map (\<lambda>i. Finite 0) [0..<n], (\<lambda>i. g (i + n)))"
  by (simp add: random_normal_f64_def f64_round_zero)

lemma map2_f64_add_zero_noise:
  "map2 f64_add (map (\<lambda>t. f64_mul a (h t)) time) (map (\<lambda>i. Finite 0) [0..<length time])
   = map (\<lambda>t. f64_mul a (h t)) time"
  by (rule nth_equalityI) (simp_all add: f64_mul_add_zero)

lemma simulate_absorbance_np_zero_noise:
  "simulate_absorbance_np V_max K_m S time epsilon path_length 0 g =
     Inr (map (noiseless_absorbance_np V_max K_m S epsilon path_length) time,
          (\<lambda>i. g (i + length time)))"
proof -
  have "map (noiseless_absorbance_np V_max K_m S epsilon path_length) time
      = map (\<lambda>t. f64_mul (py_multiply epsilon path_length)
                     (f64_mul (michaelis_menten_np S V_max K_m) (Finite t))) time"
    by (simp add: noiseless_absorbance_np_def)
  then show ?thesis
    unfolding simulate_absorbance_np_def Let_def
    using map2_f64_add_zero_noise [of "py_multiply epsilon path_length"
        "\<lambda>t. f64_mul (michaelis_menten_np S V_max K_m) (Finite t)" time]
    by (simp add: random_normal_f64_zero comp_def)
qed

text \<open>
  Claim C3, as stated, fails.  With \<open>V_max = 100\<close>, \<open>K_m = 50\<close>, \<open>S = 10\<close>, \<open>epsilon = 1000\<close>,
  \<open>path_length = 1\<close> and \<open>noise_level = 0\<close> the output at \<open>t = 1\<close> is the \<open>float64\<close> number
  \<open>16666.666666666668\<close>, not \<open>50000 / 3\<close>.  Nor is the output the formula of the claim
  evaluated in \<open>float64\<close> from left to right: for \<open>S = 200\<close> and the second point
  \<open>t = 0.10101010101010101\<close> of \<open>linspace(0, 10, 100)\<close> the generator returns
  \<open>1000 * (80 * t) = 8080.808080808081\<close>, while \<open>(1000 * 80) * t = 8080.80808080808\<close>;
  neither is the real number \<open>80000 * t\<close>.
\<close>

theorem simulate_absorbance_rounding_counterexample:
  "simulate_absorbance_np (I64 100) (I64 50) (I64 10) [1] (I64 1000) (I64 1) 0 (\<lambda>i. 1)
     = Inr ([Finite (4581298449066667 / 2 ^ 38)], (\<lambda>i. 1))
   \<and> (4581298449066667 / 2 ^ 38 :: real) \<noteq> 1000 * 1 * (100 * 10 / (50 + 10)) * 1
   \<and> is_f64 (7278544852315953 / 2 ^ 56)
   \<and> simulate_absorbance_np (I64 100) (I64 50) (I64 200) [7278544852315953 / 2 ^ 56] (I64 1000) (I64 1)
         0 (\<lambda>i. 1)
     = Inr ([Finite (2221235611668687 / 2 ^ 38)], (\<lambda>i. 1))
   \<and> f64_mul (f64_mul (py_multiply (I64 1000) (I64 1)) (michaelis_menten_np (I64 200) (I64 100) (I64 50)))
         (Finite (7278544852315953 / 2 ^ 56))
     = Finite (8884942446674747 / 2 ^ 40)
   \<and> (2221235611668687 / 2 ^ 38 :: real) \<noteq> 8884942446674747 / 2 ^ 40
   \<and> (2221235611668687 / 2 ^ 38 :: real) \<noteq> 1000 * 1 * (100 * 200 / (50 + 200)) * (7278544852315953 / 2 ^ 56)"
  by (simp add: simulate_absorbance_np_def random_normal_f64_def michaelis_menten_np_def f64_eval
      f64_exponent_eq [of "- 4"] f64_exponent_eq [of "3"] f64_exponent_eq [of "4"]
      f64_exponent_eq [of "5"] f64_exponent_eq [of "6"] f64_exponent_eq [of "7"]
      f64_exponent_eq [of "9"] f64_exponent_eq [of "12"] f64_exponent_eq [of "14"]
      f64_exponent_eq [of "16"])

text \<open>
  Claim C3, amended.  For every set of generator inputs with \<open>noise_level = 0\<close>, whatever
  the random draws, the noise added to each sample is exactly \<open>0\<close>: the output at the time
  point \<open>t\<close> is the \<open>float64\<close> product \<open>(epsilon * path_length) * (v * t)\<close>, where \<open>v\<close> is the
  \<open>float64\<close> value of \<open>michaelis_menten(S, V_max, K_m)\<close>.  In exact arithmetic this product
  is \<open>epsilon * path_length * (V_max * S / (K_m + S)) * t\<close> (lemma
  \<open>simulate_absorbance_noiseless_exact\<close>); in \<open>float64\<close> it is that number up to the
  rounding of the four operations.
\<close>

theorem simulate_absorbance_np_noiseless:
  "simulate_absorbance_np V_max K_m S time epsilon path_length 0 g =
     Inr (map (\<lambda>t. f64_mul (py_multiply epsilon path_length)
                      (f64_mul (michaelis_menten_np S V_max K_m) (Finite t))) time,
          (\<lambda>i. g (i + length time)))"
  using simulate_absorbance_np_zero_noise [of V_max K_m S time epsilon path_length g]
  by (simp add: noiseless_absorbance_np_def)

section \<open>Exceptions of the estimator and of the fitter\<close>

lemma all_finite_length: "all_finite ys = Some rs \<Longrightarrow> length rs = length ys"
  by (induction ys arbitrary: rs rule: all_finite.induct) (auto split: option.splits)

text \<open>
  Claim C4, as stated, fails: an input with a single substrate concentration makes
  \<open>curve_fit\<close> raise its own \<open>TypeError\<close>, not \<open>UnderdeterminedFitError\<close>.
\<close>

theorem fitter_single_concentration_counterexample:
  "card (fst ` set [(10::real, Finite 20)]) < 2 \<and>
   fit_michaelis_menten leastsq_no_convergence [(10, Finite 20)] (100, 50)
     \<noteq> Inl UnderdeterminedFitError"
  by (simp add: fit_michaelis_menten_def)

text \<open>
  Claim C4, amended.  The fitter never raises \<open>UnderdeterminedFitError\<close>, whatever the
  number of distinct concentrations.  With fewer than two observations, hence fewer
  than two distinct concentrations, \<open>curve_fit\<close> rejects the input with \<open>ValueError\<close>
  (no observation, or a velocity that is not finite) or \<open>TypeError\<close> (one observation).
\<close>

theorem fitter_never_underdetermined_error:
  "fit_michaelis_menten leastsq observations p0 \<noteq> Inl UnderdeterminedFitError
   \<and> (length observations < 2 \<longrightarrow>
        fit_michaelis_menten leastsq observations p0 = Inl (Raised ValueError)
      \<or> fit_michaelis_menten leastsq observations p0 = Inl (Raised TypeError))"
  by (auto simp add: fit_michaelis_menten_def split: option.splits dest: all_finite_length)

theorem fitter_never_underdetermined_error_witness:
  "fit_michaelis_menten leastsq_no_convergence [(10, Finite 20)] (100, 50)
     \<noteq> Inl UnderdeterminedFitError
   \<and> length [(10::real, Finite 20)] < 2
   \<and> fit_michaelis_menten leastsq_no_convergence [(10, Finite 20)] (100, 50)
       = Inl (Raised TypeError)"
  using fitter_never_underdetermined_error[of leastsq_no_convergence "[(10, Finite 20)]"
      "(100, 50)"]
  by (simp add: fit_michaelis_menten_def)

text \<open>
  Claim C5, as stated, fails: with \<open>epsilon = 0\<close> the estimator does not raise
  \<open>ConfigurationError\<close>.
\<close>

theorem estimator_zero_epsilon_counterexample:
  "calculate_initial_velocities lapack_gelsd
     [\<lparr>Time = 0, Absorbance = Finite 0, Substrate_Concentration = 10, Replicate = 1\<rparr>,
      \<lparr>Time = 1, Absorbance = Finite 2000, Substrate_Concentration = 10, Replicate = 1\<rparr>]
     0 1
   \<noteq> Inl ConfigurationError"
  by (simp add: calculate_initial_velocities_def Let_def split: sum.splits prod.splits)

text \<open>
  Claim C5, amended.  The estimator never raises \<open>ConfigurationError\<close>, whether or not
  \<open>epsilon\<close> or \<open>path_length\<close> is zero.  When one of them is zero the division is
  carried out all the same, and every converted concentration is a non-finite float.
\<close>

theorem estimator_never_configuration_error:
  "calculate_initial_velocities backend df epsilon path_length \<noteq> Inl ConfigurationError
   \<and> (epsilon = 0 \<or> path_length = 0 \<longrightarrow>
        map snd (with_Concentration df epsilon path_length)
          = map (\<lambda>r. NonFinite) df)"
proof -
  have "fdiv a 0 = NonFinite" for a
    by (cases a) simp_all
  then show ?thesis
    by (auto simp add: calculate_initial_velocities_def with_Concentration_def Let_def
        split: sum.splits prod.splits)
qed

theorem estimator_never_configuration_error_witness:
  "calculate_initial_velocities lapack_gelsd
     [\<lparr>Time = 0, Absorbance = Finite 0, Substrate_Concentration = 10, Replicate = 1\<rparr>,
      \<lparr>Time = 1, Absorbance = Finite 2000, Substrate_Concentration = 10, Replicate = 1\<rparr>]
     0 1
   \<noteq> Inl ConfigurationError
   \<and> map snd (with_Concentration
        [\<lparr>Time = 0, Absorbance = Finite 0, Substrate_Concentration = 10, Replicate = 1\<rparr>,
         \<lparr>Time = 1, Absorbance = Finite 2000, Substrate_Concentration = 10, Replicate = 1\<rparr>]
        0 1)
     = [NonFinite, NonFinite]"
  using estimator_never_configuration_error[of lapack_gelsd
      "[\<lparr>Time = 0, Absorbance = Finite 0, Substrate_Concentration = 10, Replicate = 1\<rparr>,
        \<lparr>Time = 1, Absorbance = Finite 2000, Substrate_Concentration = 10, Replicate = 1\<rparr>]"
      0 1]
  by simp

text \<open>
  Claim C6, as stated, fails: a replicate with a single time point does not make the
  estimator raise \<open>InsufficientDataError\<close>.
\<close>

theorem estimator_single_point_counterexample:
  "length [\<lparr>Time = 1, Absorbance = Finite 2000, Substrate_Concentration = 10,
            Replicate = 1\<rparr>] < 2
   \<and> calculate_initial_velocities lapack_gelsd
       [\<lparr>Time = 1, Absorbance = Finite 2000, Substrate_Concentration = 10, Replicate = 1\<rparr>]
       1000 1
     \<noteq> Inl InsufficientDataError"
  by (simp add: calculate_initial_velocities_def Let_def split: sum.splits prod.splits)

text \<open>
  Claim C6, amended.  The estimator never raises \<open>InsufficientDataError\<close>, whatever the
  number of time points of a replicate: the points of a replicate go to \<open>np.polyfit\<close>
  unchecked.
\<close>

theorem estimator_never_insufficient_data_error:
  "calculate_initial_velocities backend df epsilon path_length \<noteq> Inl InsufficientDataError"
  by (simp add: calculate_initial_velocities_def Let_def split: sum.splits prod.splits)

section \<open>What the estimator reports for a concentration\<close>

lemma set_unique [simp]: "set (unique xs) = set xs"
  by (induction xs rule: unique.induct) auto

lemma distinct_unique [simp]: "distinct (unique xs)"
  by (induction xs rule: unique.induct) auto

lemma unique_eq_Nil [simp]: "unique xs = [] \<longleftrightarrow> xs = []"
  by (cases xs) simp_all


lemma velocities_loop_entry:
  "velocities_loop backend df epsilon path_length Ss = Inr (ivs, sds) \<Longrightarrow> S \<in> set Ss
     \<Longrightarrow> \<exists>vs. v0_values_of backend (filter (\<lambda>r. Substrate_Concentration r = S) df)
                 epsilon path_length = Inr vs
            \<and> map_of (zip Ss (zip ivs sds)) S = Some (np_mean vs, np_std vs)"
proof (induction Ss arbitrary: ivs sds)
  case Nil
  then show ?case by simp
next
  case (Cons a Ss)
  then show ?case
    by (auto simp: Let_def split: sum.splits prod.splits)
qed

lemma velocities_loop_absent:
  "velocities_loop backend df epsilon path_length Ss = Inr (ivs, sds) \<Longrightarrow> S \<notin> set Ss
     \<Longrightarrow> map_of (zip Ss (zip ivs sds)) S = None"
  by (induction Ss arbitrary: ivs sds) (auto simp: Let_def split: sum.splits prod.splits)

lemma reported_entry:
  assumes "calculate_initial_velocities backend df epsilon path_length = Inr out"
  shows "reported S out =
     (if filter (\<lambda>r. Substrate_Concentration r = S) df = [] then None
      else case v0_values_of backend (filter (\<lambda>r. Substrate_Concentration r = S) df)
                  epsilon path_length of
             Inl e \<Rightarrow> None
           | Inr vs \<Rightarrow> Some (np_mean vs, np_std vs))"
proof -
  obtain ivs sds where
    loop: "velocities_loop backend df epsilon path_length
             (unique (map Substrate_Concentration df)) = Inr (ivs, sds)"
    and out: "out = (unique (map Substrate_Concentration df), ivs, sds)"
    using assms
    by (auto simp: calculate_initial_velocities_def Let_def split: sum.splits prod.splits)
  have mem: "S \<in> set (unique (map Substrate_Concentration df))
      \<longleftrightarrow> filter (\<lambda>r. Substrate_Concentration r = S) df \<noteq> []"
    by (auto simp: filter_empty_conv)
  show ?thesis
  proof (cases "filter (\<lambda>r. Substrate_Concentration r = S) df = []")
    case True
    then have "S \<notin> set (unique (map Substrate_Concentration df))"
      using mem by simp
    from velocities_loop_absent[OF loop this] True show ?thesis
      by (simp add: reported_def out)
  next
    case False
    then have "S \<in> set (unique (map Substrate_Concentration df))"
      using mem by simp
    from velocities_loop_entry[OF loop this] False show ?thesis
      by (auto simp add: reported_def out)
  qed
qed



lemma all_finite_map_Finite [simp]: "all_finite (map Finite rs) = Some rs"
  by (induction rs) simp_all




lemmas estimator_eval = calculate_initial_velocities_def v0_values_of_def
  with_Concentration_def np_polyfit_def np_mean_def np_std_def Let_def

lemma example_df_result:
  "calculate_initial_velocities lapack_gelsd example_df 1000 1
     = Inr ([10, 20], [Finite 2, Finite 5], [Finite 1, Finite 0])"
  by (simp add: estimator_eval example_df_def)

lemma example_df'_result:
  "calculate_initial_velocities lapack_gelsd example_df' 1000 1
     = Inr ([20, 10], [Finite 4, Finite 2], [Finite 0, Finite 1])"
  by (simp add: estimator_eval example_df'_def)


text \<open>
  Claim C8.  When two tables have the same rows for the concentration \<open>S\<close> and the
  estimator returns on both, what it reports for \<open>S\<close> (the mean and the standard
  deviation of the slopes of the replicates of \<open>S\<close>, or nothing when \<open>S\<close> does not
  occur) is the same for both tables, whatever the rows of the other concentrations are.
\<close>

theorem estimator_noninterference:
  assumes "filter (\<lambda>r. Substrate_Concentration r = S) df1
         = filter (\<lambda>r. Substrate_Concentration r = S) df2"
    and "calculate_initial_velocities backend df1 epsilon path_length = Inr out1"
    and "calculate_initial_velocities backend df2 epsilon path_length = Inr out2"
  shows "reported S out1 = reported S out2"
  using reported_entry[OF assms(2), of S] reported_entry[OF assms(3), of S] assms(1)
  by simp

theorem estimator_noninterference_witness:
  "filter (\<lambda>r. Substrate_Concentration r = 10) example_df
     = filter (\<lambda>r. Substrate_Concentration r = 10) example_df'
   \<and> calculate_initial_velocities lapack_gelsd example_df 1000 1
       = Inr ([10, 20], [Finite 2, Finite 5], [Finite 1, Finite 0])
   \<and> calculate_initial_velocities lapack_gelsd example_df' 1000 1
       = Inr ([20, 10], [Finite 4, Finite 2], [Finite 0, Finite 1])
   \<and> reported 10 ([10, 20], [Finite 2, Finite 5], [Finite 1, Finite 0])
       = reported 10 ([20, 10], [Finite 4, Finite 2], [Finite 0, Finite 1])"
proof -
  have eq: "filter (\<lambda>r. Substrate_Concentration r = 10) example_df
     = filter (\<lambda>r. Substrate_Concentration r = 10) example_df'"
    by (simp add: example_df_def example_df'_def)
  from estimator_noninterference[OF eq example_df_result example_df'_result]
    eq example_df_result example_df'_result
  show ?thesis by (intro conjI)
qed




section \<open>The least-squares fit\<close>

lemma sum_list_squared_deviation:
  fixes m :: real
  shows "sum_list (map (\<lambda>t. (t - m) ^ 2) x)
       = sum_list (map (\<lambda>t. t * t) x) - 2 * m * sum_list x + real (length x) * m ^ 2"
  by (induction x) (simp_all add: algebra_simps power2_eq_square)

lemma normal_equations_regular:
  fixes x :: "real list"
  assumes "a \<in> set x" and "b \<in> set x" and "a \<noteq> b"
  shows "real (length x) * sum_list (map (\<lambda>t. t * t) x) - sum_list x * sum_list x \<noteq> 0"
proof
  assume det: "real (length x) * sum_list (map (\<lambda>t. t * t) x) - sum_list x * sum_list x = 0"
  have n: "real (length x) \<noteq> 0"
    using assms(1) by (cases x) auto
  define m where "m = sum_list x / real (length x)"
  have "real (length x) * sum_list (map (\<lambda>t. (t - m) ^ 2) x)
      = real (length x) * sum_list (map (\<lambda>t. t * t) x) - sum_list x * sum_list x"
    unfolding sum_list_squared_deviation m_def using n
    by (simp add: field_simps power2_eq_square)
  then have "sum_list (map (\<lambda>t. (t - m) ^ 2) x) = 0"
    using det n by simp
  then have "\<forall>v\<in>set (map (\<lambda>t. (t - m) ^ 2) x). v = 0"
    by (subst (asm) sum_list_nonneg_eq_0_iff) auto
  then have "\<forall>t\<in>set x. t = m"
    by simp
  then have "a = m" and "b = m"
    using assms(1,2) by blast+
  then show False
    using assms(3) by simp
qed

lemma sum_list_line:
  fixes c :: real
  shows "sum_list (map (\<lambda>t. c * t) x) = c * sum_list x"
    and "sum_list (map2 (\<lambda>t v. t * v) x (map (\<lambda>t. c * t) x)) = c * sum_list (map (\<lambda>t. t * t) x)"
  by (induction x) (simp_all add: algebra_simps)

lemma np_polyfit_line:
  assumes "a \<in> set x" and "b \<in> set x" and "a \<noteq> b"
  shows "np_polyfit backend x (map (\<lambda>t. Finite (c * t)) x) = Inr (Finite c)"
proof -
  have ne: "x \<noteq> []"
    using assms(1) by auto
  have fin: "all_finite (map (\<lambda>t. Finite (c * t)) x) = Some (map (\<lambda>t. c * t) x)"
    using all_finite_map_Finite[of "map (\<lambda>t. c * t) x"] by (simp add: comp_def)
  let ?det = "real (length x) * sum_list (map (\<lambda>t. t * t) x) - sum_list x * sum_list x"
  have det: "?det \<noteq> 0"
    by (rule normal_equations_regular[OF assms])
  have "(real (length x) * (c * sum_list (map (\<lambda>t. t * t) x)) - sum_list x * (c * sum_list x)) / ?det
      = c * ?det / ?det"
    by (simp add: algebra_simps)
  also have "\<dots> = c"
    using det by simp
  finally show ?thesis
    using ne det by (simp add: np_polyfit_def fin Let_def sum_list_line)
qed

text \<open>
  The closed form of \<open>np_polyfit\<close> is the least-squares line: whenever the fit is
  regular, no slope \<open>a\<close> and intercept \<open>b\<close> give a smaller sum of squared residuals
  than the returned slope with the matching intercept.
\<close>

lemma sum_squared_residuals_expand:
  assumes "length x = length y"
  shows "sum_squared_residuals x y a b
       = sum_list (map (\<lambda>v. v * v) y) - 2 * a * sum_list (map2 (\<lambda>t v. t * v) x y)
         - 2 * b * sum_list y + a * a * sum_list (map (\<lambda>t. t * t) x)
         + 2 * a * b * sum_list x + real (length x) * (b * b)"
  using assms unfolding sum_squared_residuals_def
  by (induction x y rule: list_induct2) (simp_all add: algebra_simps power2_eq_square)

lemma sum_list_affine_squares:
  "sum_list (map (\<lambda>t. (p * t + q) ^ 2) x)
     = p * p * sum_list (map (\<lambda>t. t * t) x) + 2 * p * q * sum_list x
       + real (length x) * (q * q)"
  by (induction x) (simp_all add: algebra_simps power2_eq_square)

lemma least_squares_slope_optimal:
  fixes x y :: "real list"
  assumes len: "length x = length y"
    and fit: "np_polyfit backend x (map Finite y) = Inr (Finite slope)"
    and det: "real (length x) * sum_list (map (\<lambda>t. t * t) x) - sum_list x * sum_list x \<noteq> 0"
  defines "intercept \<equiv> (sum_list y - slope * sum_list x) / real (length x)"
  shows "sum_squared_residuals x y slope intercept \<le> sum_squared_residuals x y a b"
proof -
  let ?n = "real (length x)"
  let ?sx = "sum_list x"
  let ?sxx = "sum_list (map (\<lambda>t. t * t) x)"
  let ?sy = "sum_list y"
  let ?sxy = "sum_list (map2 (\<lambda>t v. t * v) x y)"
  let ?det = "?n * ?sxx - ?sx * ?sx"
  have ne: "x \<noteq> []"
    using det by auto
  then have n: "?n \<noteq> 0"
    by simp
  have slope: "slope = (?n * ?sxy - ?sx * ?sy) / ?det"
    using fit ne len det by (simp add: np_polyfit_def Let_def)
  have eq1: "?sy = slope * ?sx + ?n * intercept"
    using n by (simp add: intercept_def)
  have "slope * ?det = ?n * ?sxy - ?sx * ?sy"
    using det by (simp add: slope)
  then have "?n * ?sxy = ?n * (slope * ?sxx + intercept * ?sx)"
    unfolding eq1 by (simp add: algebra_simps)
  then have eq2: "?sxy = slope * ?sxx + intercept * ?sx"
    using n by simp
  have "sum_squared_residuals x y a b - sum_squared_residuals x y slope intercept
      = sum_list (map (\<lambda>t. ((a - slope) * t + (b - intercept)) ^ 2) x)"
    unfolding sum_squared_residuals_expand[OF len] sum_list_affine_squares eq1 eq2
    by (simp add: algebra_simps)
  moreover have "0 \<le> sum_list (map (\<lambda>t. ((a - slope) * t + (b - intercept)) ^ 2) x)"
    by (rule sum_list_nonneg) auto
  ultimately show ?thesis
    by linarith
qed

section \<open>The estimator on a table without noise\<close>

lemma Replicate_noiseless_table:
  "x \<in> set (noiseless_table V_max K_m Ss time epsilon path_length n) \<Longrightarrow> Replicate x \<in> set [1..n]"
  by (auto simp: noiseless_table_def noiseless_rows_def)

lemma concat_map_const_replicate:
  "concat (map (\<lambda>r. replicate k S) rs) = replicate (length rs * k) S"
  by (induction rs) (simp_all add: replicate_add)

lemma map_Substrate_Concentration_noiseless_table:
  "map Substrate_Concentration (noiseless_table V_max K_m Ss time epsilon path_length n)
     = concat (map (replicate (length [1..n] * length time)) Ss)"
proof -
  have rows: "map Substrate_Concentration (noiseless_rows V_max K_m S time epsilon path_length r)
      = replicate (length time) S" for S r
    by (simp add: noiseless_rows_def comp_def map_replicate_const)
  show ?thesis
    by (simp add: noiseless_table_def map_concat comp_def rows concat_map_const_replicate)
qed

lemma filter_concat_replicate:
  "filter P (concat (map (replicate m) xs)) = concat (map (replicate m) (filter P xs))"
  by (induction xs) simp_all

lemma unique_concat_replicate:
  "0 < m \<Longrightarrow> unique (concat (map (replicate m) xs)) = unique xs"
proof (induction xs rule: unique.induct)
  case 1
  then show ?case by simp
next
  case (2 x xs)
  from \<open>0 < m\<close> obtain k where m: "m = Suc k"
    by (cases m) auto
  have "unique (concat (map (replicate m) (x # xs)))
      = x # unique (filter (\<lambda>y. y \<noteq> x) (replicate k x @ concat (map (replicate m) xs)))"
    by (simp add: m)
  also have "filter (\<lambda>y. y \<noteq> x) (replicate k x @ concat (map (replicate m) xs))
      = concat (map (replicate m) (filter (\<lambda>y. y \<noteq> x) xs))"
    by (simp add: filter_concat_replicate)
  finally show ?case
    using 2 by simp
qed

lemma unique_noiseless_table:
  assumes "1 \<le> n" and "time \<noteq> []"
  shows "unique (map Substrate_Concentration
           (noiseless_table V_max K_m Ss time epsilon path_length n)) = unique Ss"
proof -
  have "0 < length [1..n] * length time"
    using assms by simp
  then show ?thesis
    by (simp only: map_Substrate_Concentration_noiseless_table unique_concat_replicate)
qed

lemma v0_values_loop_const:
  assumes "\<And>r. r \<in> set rs \<Longrightarrow>
      np_polyfit backend (map (\<lambda>x. Time (fst x)) (filter (\<lambda>x. Replicate (fst x) = r) sub))
        (map snd (filter (\<lambda>x. Replicate (fst x) = r) sub)) = Inr v"
  shows "v0_values_loop backend sub rs = Inr (map (\<lambda>r. v) rs)"
  using assms by (induction rs) (simp_all add: Let_def)

lemma np_mean_const:
  assumes "rs \<noteq> []"
  shows "np_mean (map (\<lambda>r. Finite c) rs) = Finite c"
proof -
  have "all_finite (map (\<lambda>r. Finite c) rs) = Some (map (\<lambda>r. c) rs)"
    using all_finite_map_Finite[of "map (\<lambda>r. c) rs"] by (simp add: comp_def)
  moreover have "sum_list (map (\<lambda>r. c) rs) = real (length rs) * c"
    by (induction rs) (simp_all add: algebra_simps)
  ultimately show ?thesis
    using assms by (simp add: np_mean_def)
qed

lemma np_std_const:
  assumes "rs \<noteq> []"
  shows "np_std (map (\<lambda>r. Finite c) rs) = Finite 0"
proof -
  have fin: "all_finite (map (\<lambda>r. Finite c) rs) = Some (map (\<lambda>r. c) rs)"
    using all_finite_map_Finite[of "map (\<lambda>r. c) rs"] by (simp add: comp_def)
  have sum: "sum_list (map (\<lambda>r. c) rs) = real (length rs) * c"
    by (induction rs) (simp_all add: algebra_simps)
  have mean: "sum_list (map (\<lambda>r. c) rs) / real (length rs) = c"
    using assms by (simp add: sum)
  have "sum_list (map (\<lambda>x. \<bar>x - c\<bar> ^ 2) (map (\<lambda>r. c) rs)) = 0"
    by (induction rs) simp_all
  then show ?thesis
    using assms by (simp add: np_std_def fin Let_def mean del: sum_list_eq_0_iff)
qed

lemma Absorbance_noiseless_table:
  "x \<in> set (noiseless_table V_max K_m Ss time epsilon path_length n) \<Longrightarrow>
   Absorbance x
     = Finite (beer_lambert V_max K_m (Substrate_Concentration x) epsilon path_length (Time x))"
  by (auto simp: noiseless_table_def noiseless_rows_def)

lemma Time_noiseless_table:
  assumes "S \<in> set Ss" and "r \<in> set [1..n]" and "t \<in> set time"
  shows "t \<in> Time ` set (filter (\<lambda>x. Replicate x = r)
            (filter (\<lambda>x. Substrate_Concentration x = S)
               (noiseless_table V_max K_m Ss time epsilon path_length n)))"
proof -
  let ?x = "\<lparr>Time = t, Absorbance = Finite (beer_lambert V_max K_m S epsilon path_length t),
             Substrate_Concentration = S, Replicate = r\<rparr>"
  let ?rows = "noiseless_rows V_max K_m S time epsilon path_length"
  let ?chunk = "\<lambda>S. concat (map (noiseless_rows V_max K_m S time epsilon path_length) [1..n])"
  have rows: "?x \<in> set (?rows r)"
    using assms(3) by (simp add: noiseless_rows_def)
  have "?rows r \<in> set (map ?rows [1..n])"
    using assms(2) by simp
  then have chunk: "?x \<in> set (?chunk S)"
    unfolding set_concat using rows by (rule UN_I)
  have "?chunk S \<in> set (map ?chunk Ss)"
    using assms(1) by simp
  then have "?x \<in> set (noiseless_table V_max K_m Ss time epsilon path_length n)"
    unfolding noiseless_table_def set_concat using chunk by (rule UN_I)
  then have "?x \<in> set (filter (\<lambda>x. Replicate x = r)
            (filter (\<lambda>x. Substrate_Concentration x = S)
               (noiseless_table V_max K_m Ss time epsilon path_length n)))"
    by simp
  then show ?thesis
    by (rule rev_image_eqI) simp
qed

lemma with_Concentration_replicate_data:
  "filter (\<lambda>x. Replicate (fst x) = r) (with_Concentration sub epsilon path_length)
     = with_Concentration (filter (\<lambda>x. Replicate x = r) sub) epsilon path_length"
  by (simp add: with_Concentration_def filter_map comp_def)

lemma with_Concentration_columns:
  "map (\<lambda>x. Time (fst x)) (with_Concentration rd epsilon path_length) = map Time rd"
  "map snd (with_Concentration rd epsilon path_length)
     = map (\<lambda>x. fdiv (Absorbance x) (epsilon * path_length)) rd"
  "map (\<lambda>x. Replicate (fst x)) (with_Concentration rd epsilon path_length) = map Replicate rd"
  by (simp_all add: with_Concentration_def comp_def)

lemma v0_values_of_noiseless:
  fixes V_max K_m epsilon path_length epsilon' path_length' S :: real
  assumes d: "epsilon' * path_length' \<noteq> 0"
    and S: "S \<in> set Ss" and n: "1 \<le> n"
    and ab: "a \<in> set time" "b \<in> set time" "a \<noteq> b"
  shows "\<exists>rs :: int list. rs \<noteq> [] \<and>
           v0_values_of backend (filter (\<lambda>x. Substrate_Concentration x = S)
              (noiseless_table V_max K_m Ss time epsilon path_length n)) epsilon' path_length'
           = Inr (map (\<lambda>r. Finite (beer_lambert V_max K_m S epsilon path_length 1
                                     / (epsilon' * path_length'))) rs)"
proof -
  define sub where "sub = filter (\<lambda>x. Substrate_Concentration x = S)
                    (noiseless_table V_max K_m Ss time epsilon path_length n)"
  define c where "c = beer_lambert V_max K_m S epsilon path_length 1 / (epsilon' * path_length')"
  let ?sub' = "with_Concentration sub epsilon' path_length'"
  let ?rs = "unique (map (\<lambda>r. Replicate (fst r)) ?sub')"
  have ids: "map (\<lambda>r. Replicate (fst r)) ?sub' = map Replicate sub"
    by (simp only: with_Concentration_columns)
  have "1 \<in> set [1..n]"
    using n by simp
  from Time_noiseless_table[OF S this ab(1), of V_max K_m epsilon path_length]
  obtain x where "x \<in> set (filter (\<lambda>x. Replicate x = 1) sub)"
    unfolding sub_def by (elim imageE)
  then have "sub \<noteq> []"
    by auto
  then have ne: "?rs \<noteq> []"
    by (simp add: ids)
  have fit: "np_polyfit backend
        (map (\<lambda>x. Time (fst x)) (filter (\<lambda>x. Replicate (fst x) = r) ?sub'))
        (map snd (filter (\<lambda>x. Replicate (fst x) = r) ?sub')) = Inr (Finite c)"
    if "r \<in> set ?rs" for r
  proof -
    let ?rd = "filter (\<lambda>x. Replicate x = r) sub"
    have "r \<in> set (map Replicate sub)"
      using that by (simp add: ids)
    then obtain x where x: "x \<in> set sub" "Replicate x = r"
      by auto
    then have "x \<in> set (noiseless_table V_max K_m Ss time epsilon path_length n)"
      by (simp add: sub_def)
    from Replicate_noiseless_table[OF this] have r: "r \<in> set [1..n]"
      using x(2) by simp
    have conc: "fdiv (Absorbance x) (epsilon' * path_length') = Finite (c * Time x)"
      if "x \<in> set ?rd" for x
    proof -
      from that have "x \<in> set (noiseless_table V_max K_m Ss time epsilon path_length n)"
        and xS: "Substrate_Concentration x = S"
        by (simp_all add: sub_def)
      from Absorbance_noiseless_table[OF this(1)]
      have "Absorbance x = Finite (beer_lambert V_max K_m S epsilon path_length (Time x))"
        by (simp add: xS)
      then show ?thesis
        using d by (simp add: c_def beer_lambert_def)
    qed
    have "map (\<lambda>x. fdiv (Absorbance x) (epsilon' * path_length')) ?rd
        = map (\<lambda>x. Finite (c * Time x)) ?rd"
      by (rule map_cong[OF refl]) (rule conc)
    also have "\<dots> = map (\<lambda>t. Finite (c * t)) (map Time ?rd)"
      by (simp add: comp_def)
    finally have ys: "map snd (filter (\<lambda>x. Replicate (fst x) = r) ?sub')
        = map (\<lambda>t. Finite (c * t)) (map Time ?rd)"
      by (simp only: with_Concentration_replicate_data with_Concentration_columns)
    have xs: "map (\<lambda>x. Time (fst x)) (filter (\<lambda>x. Replicate (fst x) = r) ?sub') = map Time ?rd"
      by (simp only: with_Concentration_replicate_data with_Concentration_columns)
    have "a \<in> set (map Time ?rd)" and "b \<in> set (map Time ?rd)"
      using Time_noiseless_table[OF S r ab(1), of V_max K_m epsilon path_length]
        Time_noiseless_table[OF S r ab(2), of V_max K_m epsilon path_length]
      unfolding sub_def by simp_all
    then show ?thesis
      unfolding xs ys using ab(3) by (rule np_polyfit_line)
  qed
  have "v0_values_of backend sub epsilon' path_length' = Inr (map (\<lambda>r. Finite c) ?rs)"
    unfolding v0_values_of_def Let_def by (rule v0_values_loop_const) (rule fit)
  with ne have "?rs \<noteq> [] \<and>
      v0_values_of backend sub epsilon' path_length' = Inr (map (\<lambda>r. Finite c) ?rs)"
    by simp
  then have "\<exists>rs :: int list. rs \<noteq> [] \<and>
      v0_values_of backend sub epsilon' path_length' = Inr (map (\<lambda>r. Finite c) rs)"
    by (rule exI[where x = "?rs"])
  then show ?thesis
    unfolding sub_def c_def .
qed

lemma velocities_loop_noiseless:
  assumes d: "epsilon' * path_length' \<noteq> 0"
    and n: "1 \<le> n"
    and ab: "a \<in> set time" "b \<in> set time" "a \<noteq> b"
    and sub: "set Ss' \<subseteq> set Ss"
  shows "velocities_loop backend (noiseless_table V_max K_m Ss time epsilon path_length n)
           epsilon' path_length' Ss'
       = Inr (map (\<lambda>S. Finite (beer_lambert V_max K_m S epsilon path_length 1
                                  / (epsilon' * path_length'))) Ss',
              map (\<lambda>S. Finite 0) Ss')"
  using sub
proof (induction Ss')
  case Nil
  then show ?case by simp
next
  case (Cons S Ss')
  then have "S \<in> set Ss"
    by simp
  from v0_values_of_noiseless[OF d this n ab, where V_max = V_max and K_m = K_m
      and epsilon = epsilon and path_length = path_length and backend = backend]
  obtain rs :: "int list" where
    "rs \<noteq> []" and
    "v0_values_of backend (filter (\<lambda>x. Substrate_Concentration x = S)
        (noiseless_table V_max K_m Ss time epsilon path_length n)) epsilon' path_length'
      = Inr (map (\<lambda>r. Finite (beer_lambert V_max K_m S epsilon path_length 1
                                / (epsilon' * path_length'))) rs)"
    by (elim exE conjE)
  moreover have "velocities_loop backend (noiseless_table V_max K_m Ss time epsilon path_length n)
           epsilon' path_length' Ss'
       = Inr (map (\<lambda>S. Finite (beer_lambert V_max K_m S epsilon path_length 1
                                  / (epsilon' * path_length'))) Ss',
              map (\<lambda>S. Finite 0) Ss')"
    using Cons by simp
  ultimately show ?case
    by (simp add: Let_def np_mean_const np_std_const)
qed

lemma calculate_initial_velocities_noiseless:
  assumes "1 \<le> n" and "epsilon' * path_length' \<noteq> 0"
    and "a \<in> set time" and "b \<in> set time" and "a \<noteq> b"
  shows "calculate_initial_velocities backend
           (noiseless_table V_max K_m Ss time epsilon path_length n) epsilon' path_length'
       = Inr (unique Ss,
              map (\<lambda>S. Finite (beer_lambert V_max K_m S epsilon path_length 1
                                  / (epsilon' * path_length'))) (unique Ss),
              map (\<lambda>S. Finite 0) (unique Ss))"
proof -
  have "time \<noteq> []"
    using assms(3) by auto
  then have u: "unique (map Substrate_Concentration
                  (noiseless_table V_max K_m Ss time epsilon path_length n)) = unique Ss"
    using assms(1) by (rule unique_noiseless_table[rotated])
  have "set (unique Ss) \<subseteq> set Ss"
    by simp
  from velocities_loop_noiseless[OF assms(2,1,3,4,5) this, where V_max = V_max and K_m = K_m
      and epsilon = epsilon and path_length = path_length and backend = backend]
  show ?thesis
    unfolding calculate_initial_velocities_def Let_def u by simp
qed

lemma noiseless_replicates_zero_std_exact:
  assumes "1 \<le> n_replicates" and "epsilon' * path_length' \<noteq> 0"
    and "\<forall>S\<in>set substrate_concentrations. K_m + S \<noteq> 0"
    and "a \<in> set time" and "b \<in> set time" and "a \<noteq> b"
  shows "\<exists>df g' initial_velocities.
           save_simulated_absorbance_data V_max K_m substrate_concentrations time epsilon
             path_length 0 n_replicates g = Inr (df, g')
         \<and> calculate_initial_velocities backend df epsilon' path_length'
             = Inr (unique substrate_concentrations, initial_velocities,
                    map (\<lambda>S. Finite 0) (unique substrate_concentrations))"
proof -
  obtain g' where
    "save_simulated_absorbance_data V_max K_m substrate_concentrations time epsilon
       path_length 0 n_replicates g
     = Inr (noiseless_table V_max K_m substrate_concentrations time epsilon path_length
              n_replicates, g')"
    using save_simulated_absorbance_data_noiseless[OF assms(3)] by blast
  then show ?thesis
    using calculate_initial_velocities_noiseless[OF assms(1,2,4,5,6), where V_max = V_max
        and K_m = K_m and epsilon = epsilon and path_length = path_length and backend = backend
        and Ss = substrate_concentrations]
    by (intro exI conjI)
qed

section \<open>The estimator on a float64 table without noise\<close>

lemma pairwise_sum_short: "length a < 8 \<Longrightarrow> pairwise_sum a = foldl f64_add (Finite 0) a"
  by (subst pairwise_sum.simps) simp

lemma np_sum_f64_single: "f64_stored v \<Longrightarrow> np_sum_f64 [v] = v"
  by (simp add: np_sum_f64_def pairwise_sum_short f64_add_zero_left)

lemma np_mean_f64_single: "f64_stored v \<Longrightarrow> np_mean_f64 [v] = v"
  by (cases v) (simp_all add: np_mean_f64_def np_sum_f64_single f64_stored_Finite)

lemma np_std_f64_single:
  assumes "f64_stored v" and "v \<noteq> NonFinite"
  shows "np_std_f64 [v] = Finite 0"
proof -
  obtain r where v: "v = Finite r"
    using assms(2) by (cases v) simp_all
  have r: "f64_round r = Finite r"
    using assms(1) by (simp add: v f64_stored_Finite)
  have zero: "np_sum_f64 [Finite 0] = Finite 0"
    by (rule np_sum_f64_single) (simp add: f64_stored_def f64_round_zero)
  have mean: "np_sum_f64 [Finite r] = Finite r"
    using assms(1) unfolding v by (rule np_sum_f64_single)
  show ?thesis
    by (simp add: np_std_f64_def Let_def v mean r f64_round_zero zero)
qed

lemma np_sum_f64_pair:
  assumes "f64_round r = Finite r"
  shows "np_sum_f64 [Finite r, Finite r]
       = (if \<bar>2 * r\<bar> < 2 ^ 1024 then Finite (2 * r) else NonFinite)"
proof (cases "\<bar>2 * r\<bar> < 2 ^ 1024")
  case True
  have d: "f64_round (2 * r) = Finite (2 * r)"
    using f64_round_double [OF assms] True by simp
  have "np_sum_f64 [Finite r, Finite r] = f64_add (Finite 0) (f64_round (2 * r))"
    by (simp add: np_sum_f64_def pairwise_sum_short assms)
  also have "\<dots> = Finite (2 * r)"
    by (simp only: d f64_add.simps add_0 d)
  finally show ?thesis
    using True by simp
next
  case False
  have d: "f64_round (2 * r) = NonFinite"
    using f64_round_double [OF assms] False by simp
  have "np_sum_f64 [Finite r, Finite r] = f64_add (Finite 0) (f64_round (2 * r))"
    by (simp add: np_sum_f64_def pairwise_sum_short assms)
  also have "\<dots> = NonFinite"
    by (simp only: d f64_add.simps)
  finally show ?thesis
    using False by simp
qed

lemma np_mean_f64_pair:
  assumes "f64_round r = Finite r"
  shows "np_mean_f64 [Finite r, Finite r]
       = (if \<bar>2 * r\<bar> < 2 ^ 1024 then Finite r else NonFinite)"
  by (simp add: np_mean_f64_def np_sum_f64_pair [OF assms] assms)

lemma np_std_f64_pair:
  assumes "f64_round r = Finite r" and "\<bar>2 * r\<bar> < 2 ^ 1024"
  shows "np_std_f64 [Finite r, Finite r] = Finite 0"
proof -
  have zero: "np_sum_f64 [Finite 0, Finite 0] = Finite 0"
    using np_sum_f64_pair [of 0] by (simp add: f64_round_zero)
  show ?thesis
    using assms(2)
    by (simp add: np_std_f64_def Let_def np_sum_f64_pair [OF assms(1)] assms(1) f64_round_zero zero)
qed

lemma np_std_f64_replicate:
  assumes "f64_stored v" and "k = 1 \<or> k = 2" and "np_mean_f64 (replicate k v) \<noteq> NonFinite"
  shows "np_std_f64 (replicate k v) = Finite 0"
proof -
  from assms(2) show ?thesis
  proof
    assume k: "k = 1"
    then have "v \<noteq> NonFinite"
      using assms(1,3) by (simp add: np_mean_f64_single)
    then show ?thesis
      using assms(1) by (simp add: k np_std_f64_single)
  next
    assume k: "k = 2"
    have two: "replicate k v = [v, v]"
      by (simp add: k numeral_2_eq_2)
    show ?thesis
    proof (cases v)
      case (Finite r)
      then have r: "f64_round r = Finite r"
        using assms(1) by (simp add: f64_stored_Finite)
      have two': "replicate k (Finite r) = [Finite r, Finite r]"
        by (simp add: k numeral_2_eq_2)
      have ne: "np_mean_f64 [Finite r, Finite r] \<noteq> NonFinite"
        using assms(3) unfolding Finite two' .
      have "\<bar>2 * r\<bar> < 2 ^ 1024"
      proof (rule ccontr)
        assume "\<not> \<bar>2 * r\<bar> < 2 ^ 1024"
        then have "np_mean_f64 [Finite r, Finite r] = NonFinite"
          by (simp only: np_mean_f64_pair [OF r] if_False)
        then show False
          using ne by simp
      qed
      then show ?thesis
        using r by (simp only: Finite two' np_std_f64_pair)
    next
      case NonFinite
      have "np_mean_f64 [NonFinite, NonFinite] = NonFinite"
        by (simp add: np_mean_f64_def np_sum_f64_def pairwise_sum_short)
      moreover have "replicate k NonFinite = [NonFinite, NonFinite]"
        by (simp add: k numeral_2_eq_2)
      ultimately show ?thesis
        using assms(3) by (simp add: NonFinite)
    qed
  qed
qed

lemma rows_of_noiseless_absorbance_np:
  "map (\<lambda>(t, absorbance).
          \<lparr>Time = t, Absorbance = absorbance, Substrate_Concentration = number_value S,
           Replicate = r\<rparr>)
     (zip time (map (noiseless_absorbance_np V_max K_m S epsilon path_length) time))
   = noiseless_rows_np V_max K_m S time epsilon path_length r"
  by (induction time) (simp_all add: noiseless_rows_np_def)

lemma simulate_replicates_np_noiseless:
  "\<exists>g'. simulate_replicates_np V_max K_m S time epsilon path_length 0 rs g
     = Inr (concat (map (noiseless_rows_np V_max K_m S time epsilon path_length) rs), g')"
proof (induction rs arbitrary: g)
  case Nil
  then show ?case by simp
next
  case (Cons r rs)
  obtain g' where
    "simulate_replicates_np V_max K_m S time epsilon path_length 0 rs (\<lambda>i. g (i + length time))
       = Inr (concat (map (noiseless_rows_np V_max K_m S time epsilon path_length) rs), g')"
    using Cons.IH by blast
  then show ?case
    by (simp add: simulate_absorbance_np_zero_noise rows_of_noiseless_absorbance_np)
qed

lemma save_simulated_absorbance_data_np_noiseless:
  "\<exists>g'. save_simulated_absorbance_data_np V_max K_m Ss time epsilon path_length 0 n g
     = Inr (noiseless_table_np V_max K_m Ss time epsilon path_length n, g')"
proof (induction Ss arbitrary: g)
  case Nil
  then show ?case by (simp add: noiseless_table_np_def)
next
  case (Cons S Ss)
  obtain g1 where g1:
    "simulate_replicates_np V_max K_m S time epsilon path_length 0 [1..n] g
       = Inr (concat (map (noiseless_rows_np V_max K_m S time epsilon path_length) [1..n]), g1)"
    using simulate_replicates_np_noiseless by blast
  obtain g2 where
    "save_simulated_absorbance_data_np V_max K_m Ss time epsilon path_length 0 n g1
       = Inr (noiseless_table_np V_max K_m Ss time epsilon path_length n, g2)"
    using Cons.IH by blast
  then show ?case
    using g1 by (simp add: noiseless_table_np_def)
qed

lemma Replicate_noiseless_table_np:
  "x \<in> set (noiseless_table_np V_max K_m Ss time epsilon path_length n) \<Longrightarrow> Replicate x \<in> set [1..n]"
  by (auto simp: noiseless_table_np_def noiseless_rows_np_def)

lemma map_Substrate_Concentration_noiseless_table_np:
  "map Substrate_Concentration (noiseless_table_np V_max K_m Ss time epsilon path_length n)
     = concat (map (replicate (length [1..n] * length time)) (map number_value Ss))"
proof -
  have rows: "map Substrate_Concentration (noiseless_rows_np V_max K_m S time epsilon path_length r)
      = replicate (length time) (number_value S)" for S r
    by (simp add: noiseless_rows_np_def comp_def map_replicate_const)
  show ?thesis
    by (simp add: noiseless_table_np_def map_concat comp_def rows concat_map_const_replicate)
qed

lemma unique_noiseless_table_np:
  assumes "1 \<le> n" and "time \<noteq> []"
  shows "unique (map Substrate_Concentration
           (noiseless_table_np V_max K_m Ss time epsilon path_length n))
       = unique (map number_value Ss)"
proof -
  have "0 < length [1..n] * length time"
    using assms by simp
  then show ?thesis
    by (simp only: map_Substrate_Concentration_noiseless_table_np unique_concat_replicate)
qed

lemma noiseless_table_np_not_empty:
  assumes "1 \<le> n" and "time \<noteq> []" and "Ss \<noteq> []"
  shows "noiseless_table_np V_max K_m Ss time epsilon path_length n \<noteq> []"
proof
  assume "noiseless_table_np V_max K_m Ss time epsilon path_length n = []"
  then have "unique (map Substrate_Concentration
      (noiseless_table_np V_max K_m Ss time epsilon path_length n)) = []"
    by simp
  then have "unique (map number_value Ss) = []"
    by (simp only: unique_noiseless_table_np [OF assms(1,2)])
  then show False
    using assms(3) by simp
qed

lemma filter_noiseless_rows_np:
  "filter (\<lambda>x. Replicate x = r \<and> Substrate_Concentration x = S')
     (noiseless_rows_np V_max K_m S time epsilon path_length a)
   = (if a = r \<and> number_value S = S'
      then noiseless_rows_np V_max K_m S time epsilon path_length a else [])"
  by (induction time) (simp_all add: noiseless_rows_np_def)

lemma filter_noiseless_replicates_np:
  assumes "distinct rs" and "r \<in> set rs"
  shows "filter (\<lambda>x. Replicate x = r \<and> Substrate_Concentration x = S')
           (concat (map (noiseless_rows_np V_max K_m S time epsilon path_length) rs))
       = (if number_value S = S'
          then noiseless_rows_np V_max K_m S time epsilon path_length r else [])"
  using assms
proof (induction rs)
  case Nil
  then show ?case by simp
next
  case (Cons a rs)
  show ?case
  proof (cases "a = r")
    case True
    then have "r \<notin> set rs"
      using Cons.prems(1) by simp
    then have "filter (\<lambda>x. Replicate x = r \<and> Substrate_Concentration x = S')
           (concat (map (noiseless_rows_np V_max K_m S time epsilon path_length) rs)) = []"
      by (auto simp: filter_empty_conv noiseless_rows_np_def)
    then show ?thesis
      using True by (simp add: filter_noiseless_rows_np)
  next
    case False
    then have "r \<in> set rs" and "distinct rs"
      using Cons.prems by simp_all
    then show ?thesis
      using Cons.IH False by (simp add: filter_noiseless_rows_np)
  qed
qed

lemma series_noiseless_rows_np:
  "map (\<lambda>x. (Time x, Absorbance x)) (noiseless_rows_np V_max K_m S time epsilon path_length r)
     = map (\<lambda>t. (t, noiseless_absorbance_np V_max K_m S epsilon path_length t)) time"
  by (simp add: noiseless_rows_np_def comp_def)

lemma replicate_series_noiseless_table_np:
  assumes "r \<in> set [1..n]"
  shows "map (\<lambda>x. (Time x, Absorbance x))
           (filter (\<lambda>x. Replicate x = r)
              (filter (\<lambda>x. Substrate_Concentration x = S')
                 (noiseless_table_np V_max K_m Ss time epsilon path_length n)))
       = noiseless_series_np V_max K_m Ss time epsilon path_length S'"
proof -
  have d: "distinct [1..n]"
    by simp
  have chunk: "filter (\<lambda>x. Replicate x = r \<and> Substrate_Concentration x = S')
           (concat (map (noiseless_rows_np V_max K_m S time epsilon path_length) [1..n]))
       = (if number_value S = S'
          then noiseless_rows_np V_max K_m S time epsilon path_length r else [])" for S
    using d assms by (rule filter_noiseless_replicates_np)
  have "map (\<lambda>x. (Time x, Absorbance x))
           (filter (\<lambda>x. Replicate x = r \<and> Substrate_Concentration x = S')
              (noiseless_table_np V_max K_m Ss time epsilon path_length n))
       = noiseless_series_np V_max K_m Ss time epsilon path_length S'"
    unfolding noiseless_table_np_def noiseless_series_np_def
    by (induction Ss) (simp_all add: chunk series_noiseless_rows_np)
  then show ?thesis
    by (simp add: conj_commute)
qed

lemma with_Concentration_f64_replicate_data:
  "filter (\<lambda>x. Replicate (fst x) = r) (with_Concentration_f64 sub epsilon path_length)
     = with_Concentration_f64 (filter (\<lambda>x. Replicate x = r) sub) epsilon path_length"
  by (simp add: with_Concentration_f64_def filter_map comp_def)

lemma with_Concentration_f64_columns:
  "map (\<lambda>x. Time (fst x)) (with_Concentration_f64 rd epsilon path_length)
     = map fst (map (\<lambda>x. (Time x, Absorbance x)) rd)"
  "map snd (with_Concentration_f64 rd epsilon path_length)
     = map (\<lambda>p. f64_div (snd p) (py_multiply epsilon path_length))
         (map (\<lambda>x. (Time x, Absorbance x)) rd)"
  "map (\<lambda>x. Replicate (fst x)) (with_Concentration_f64 rd epsilon path_length) = map Replicate rd"
  by (simp_all add: with_Concentration_f64_def comp_def)

lemma np_polyfit_f64_stored: "np_polyfit_f64 lstsq x y = Inr v \<Longrightarrow> f64_stored v"
  by (auto simp: np_polyfit_f64_def f64_stored_store split: if_splits sum.splits)

lemma v0_values_loop_f64_const:
  assumes "\<And>r. r \<in> set rs \<Longrightarrow>
      np_polyfit_f64 lstsq (map (\<lambda>x. Time (fst x)) (filter (\<lambda>x. Replicate (fst x) = r) sub))
        (map snd (filter (\<lambda>x. Replicate (fst x) = r) sub)) = res"
  shows "v0_values_loop_f64 lstsq sub rs
       = (case res of
            Inl e \<Rightarrow> if rs = [] then Inr [] else Inl e
          | Inr v \<Rightarrow> Inr (replicate (length rs) v))"
  using assms by (induction rs) (auto simp add: Let_def split: sum.splits)

lemma v0_values_of_f64_identical:
  assumes series: "\<And>r. r \<in> set (map Replicate sub) \<Longrightarrow>
      map (\<lambda>x. (Time x, Absorbance x)) (filter (\<lambda>x. Replicate x = r) sub) = series"
    and ret: "v0_values_of_f64 lstsq sub epsilon path_length = Inr vs"
  shows "\<exists>v. f64_stored v \<and> vs = replicate (length (unique (map Replicate sub))) v"
proof -
  let ?sub' = "with_Concentration_f64 sub epsilon path_length"
  let ?rs = "unique (map Replicate sub)"
  define res where "res = np_polyfit_f64 lstsq (map fst series)
      (map (\<lambda>p. f64_div (snd p) (py_multiply epsilon path_length)) series)"
  have ids: "map (\<lambda>r. Replicate (fst r)) ?sub' = map Replicate sub"
    by (simp only: with_Concentration_f64_columns)
  have fit: "np_polyfit_f64 lstsq
        (map (\<lambda>x. Time (fst x)) (filter (\<lambda>x. Replicate (fst x) = r) ?sub'))
        (map snd (filter (\<lambda>x. Replicate (fst x) = r) ?sub')) = res"
    if "r \<in> set ?rs" for r
  proof -
    have "r \<in> set (map Replicate sub)"
      using that by simp
    from series [OF this] show ?thesis
      by (simp only: with_Concentration_f64_replicate_data with_Concentration_f64_columns res_def)
  qed
  have loop: "v0_values_of_f64 lstsq sub epsilon path_length
      = (case res of
           Inl e \<Rightarrow> if ?rs = [] then Inr [] else Inl e
         | Inr v \<Rightarrow> Inr (replicate (length ?rs) v))"
    unfolding v0_values_of_f64_def Let_def ids
    by (rule v0_values_loop_f64_const) (rule fit)
  show ?thesis
  proof (cases res)
    case (Inl e)
    then have "?rs = []" and "vs = []"
      using loop ret by (simp_all split: if_splits)
    then have "f64_stored NonFinite \<and> vs = replicate (length ?rs) NonFinite"
      by (simp add: f64_stored_def)
    then show ?thesis
      by (rule exI)
  next
    case (Inr v)
    then have "f64_stored v"
      unfolding res_def by (rule np_polyfit_f64_stored)
    moreover have "vs = replicate (length ?rs) v"
      using loop ret Inr by simp
    ultimately show ?thesis
      by blast
  qed
qed

lemma velocities_loop_f64_entry:
  "velocities_loop_f64 lstsq df epsilon path_length Ss = Inr (ivs, sds) \<Longrightarrow> S \<in> set Ss
     \<Longrightarrow> \<exists>vs. v0_values_of_f64 lstsq (filter (\<lambda>r. Substrate_Concentration r = S) df)
                 epsilon path_length = Inr vs
            \<and> map_of (zip Ss (zip ivs sds)) S = Some (np_mean_f64 vs, np_std_f64 vs)"
proof (induction Ss arbitrary: ivs sds)
  case Nil
  then show ?case by simp
next
  case (Cons a Ss)
  then show ?case
    by (auto simp: Let_def split: sum.splits prod.splits)
qed

lemma velocities_loop_f64_absent:
  "velocities_loop_f64 lstsq df epsilon path_length Ss = Inr (ivs, sds) \<Longrightarrow> S \<notin> set Ss
     \<Longrightarrow> map_of (zip Ss (zip ivs sds)) S = None"
  by (induction Ss arbitrary: ivs sds) (auto simp: Let_def split: sum.splits prod.splits)

lemma reported_entry_f64:
  assumes "calculate_initial_velocities_f64 lstsq df epsilon path_length = Inr out"
  shows "reported S out =
     (if filter (\<lambda>r. Substrate_Concentration r = S) df = [] then None
      else case v0_values_of_f64 lstsq (filter (\<lambda>r. Substrate_Concentration r = S) df)
                  epsilon path_length of
             Inl e \<Rightarrow> None
           | Inr vs \<Rightarrow> Some (np_mean_f64 vs, np_std_f64 vs))"
proof -
  obtain ivs sds where
    loop: "velocities_loop_f64 lstsq df epsilon path_length
             (unique (map Substrate_Concentration df)) = Inr (ivs, sds)"
    and out: "out = (unique (map Substrate_Concentration df), ivs, sds)"
    using assms
    by (auto simp: calculate_initial_velocities_f64_def Let_def split: sum.splits prod.splits)
  have mem: "S \<in> set (unique (map Substrate_Concentration df))
      \<longleftrightarrow> filter (\<lambda>r. Substrate_Concentration r = S) df \<noteq> []"
    by (auto simp: filter_empty_conv)
  show ?thesis
  proof (cases "filter (\<lambda>r. Substrate_Concentration r = S) df = []")
    case True
    then have "S \<notin> set (unique (map Substrate_Concentration df))"
      using mem by simp
    from velocities_loop_f64_absent[OF loop this] True show ?thesis
      by (simp add: reported_def out)
  next
    case False
    then have "S \<in> set (unique (map Substrate_Concentration df))"
      using mem by simp
    from velocities_loop_f64_entry[OF loop this] False show ?thesis
      by (auto simp add: reported_def out)
  qed
qed

lemma length_unique_replicates:
  assumes "set l \<subseteq> set [1..n]"
  shows "length (unique l) \<le> nat n"
proof -
  have "card (set (unique l)) = length (unique l)"
    by (rule distinct_card) (rule distinct_unique)
  then have "length (unique l) = card (set l)"
    by simp
  also have "\<dots> \<le> card (set [1..n])"
    using assms by (intro card_mono) simp_all
  also have "\<dots> = nat n"
    by simp
  finally show ?thesis .
qed

lemma identical_replicates_zero_std_f64:
  assumes out: "calculate_initial_velocities_f64 lstsq df epsilon path_length = Inr out"
    and rep: "reported S out = Some (mean, std)"
    and series: "\<And>r. r \<in> set (map Replicate (filter (\<lambda>x. Substrate_Concentration x = S) df)) \<Longrightarrow>
      map (\<lambda>x. (Time x, Absorbance x))
        (filter (\<lambda>x. Replicate x = r) (filter (\<lambda>x. Substrate_Concentration x = S) df)) = series"
    and two: "length (unique (map Replicate (filter (\<lambda>x. Substrate_Concentration x = S) df))) \<le> 2"
    and mean: "mean \<noteq> NonFinite"
  shows "std = Finite 0"
proof -
  let ?sub = "filter (\<lambda>x. Substrate_Concentration x = S) df"
  have ne: "?sub \<noteq> []"
    using reported_entry_f64 [OF out, of S] rep by (auto split: if_splits)
  then obtain vs where vs: "v0_values_of_f64 lstsq ?sub epsilon path_length = Inr vs"
    and m: "mean = np_mean_f64 vs" and s: "std = np_std_f64 vs"
    using reported_entry_f64 [OF out, of S] rep by (auto split: sum.splits)
  from v0_values_of_f64_identical [OF series vs] obtain v where
    v: "f64_stored v" and eq: "vs = replicate (length (unique (map Replicate ?sub))) v"
    by blast
  define k where "k = length (unique (map Replicate ?sub))"
  have "k \<noteq> 0"
    using ne by (simp add: k_def)
  then have k: "k = 1 \<or> k = 2"
    using two unfolding k_def [symmetric] by linarith
  have "np_mean_f64 (replicate k v) \<noteq> NonFinite"
    using mean m eq by (simp add: k_def)
  with v k have "np_std_f64 (replicate k v) = Finite 0"
    by (rule np_std_f64_replicate)
  then show ?thesis
    using s eq by (simp add: k_def)
qed


lemmas f64_exponents_example =
  f64_exponent_eq [of "- 96"] f64_exponent_eq [of "- 95"] f64_exponent_eq [of "- 48"]
  f64_exponent_eq [of "4"] f64_exponent_eq [of "5"] f64_exponent_eq [of "6"]
  f64_exponent_eq [of "9"] f64_exponent_eq [of "10"] f64_exponent_eq [of "14"]
  f64_exponent_eq [of "15"]

lemmas generator_eval = simulate_absorbance_np_def random_normal_f64_def michaelis_menten_np_def

lemmas estimator_f64_eval = calculate_initial_velocities_f64_def v0_values_of_f64_def
  with_Concentration_f64_def np_polyfit_f64_def lstsq_returning_def np_mean_f64_def
  np_sum_f64_def pairwise_sum_short

lemma sqrt_example: "sqrt (1 / 79228162514264337593543950336) = 1 / 281474976710656"
  by (rule real_sqrt_unique) (simp_all add: power2_eq_square)

lemma example_table_2_generated:
  "save_simulated_absorbance_data_np (I64 100) (I64 50) [I64 20] [0, 1, 2] (I64 1000) (I64 1)
     0 2 (\<lambda>i. 1) = Inr (example_table_2, (\<lambda>i. 1))"
  by (simp add: generator_eval f64_eval f64_exponents_example example_table_2_def upto.simps)

lemma example_table_3_generated:
  "save_simulated_absorbance_data_np (I64 100) (I64 50) [I64 20] [0, 1, 2] (I64 1000) (I64 1)
     0 3 (\<lambda>i. 1) = Inr (example_table_3, (\<lambda>i. 1))"
  by (simp add: generator_eval f64_eval f64_exponents_example example_table_3_def upto.simps)

text \<open>
  Claim C7, as stated, fails.  Take the table generated with \<open>noise_level = 0\<close> for
  \<open>V_max = 100\<close>, \<open>K_m = 50\<close>, \<open>S = 20\<close>, the time points 0, 1 and 2, \<open>epsilon = 1000\<close>,
  \<open>path_length = 1\<close> and three replicates.  The three replicates have the same series, so
  the solver returns the same slope three times: a \<open>float64\<close> number next to \<open>200 / 7\<close>,
  for NumPy's solver \<open>x = 28.571428571428577 = 8042142191733030 / 2 ^ 48\<close>.  The
  \<open>float64\<close> mean \<open>(x + x + x) / 3\<close> of the three slopes is \<open>28.571428571428573\<close> and not
  \<open>x\<close>, each deviation from it is \<open>2 ^ -48\<close>, and the reported standard deviation is
  \<open>2 ^ -48 = 3.55e-15\<close>, not \<open>0\<close>.
\<close>

theorem noiseless_replicates_std_counterexample:
  "is_f64 (4021071095866515 / 2 ^ 47)
   \<and> save_simulated_absorbance_data_np (I64 100) (I64 50) [I64 20] [0, 1, 2] (I64 1000) (I64 1)
       0 3 (\<lambda>i. 1) = Inr (example_table_3, (\<lambda>i. 1))
   \<and> load_external_data example_table_3 = Inr example_table_3
   \<and> calculate_initial_velocities_f64 (lstsq_returning (4021071095866515 / 2 ^ 47)) example_table_3
       (I64 1000) (I64 1)
     = Inr ([20], [Finite (8042142191733029 / 2 ^ 48)], [Finite (1 / 2 ^ 48)])
   \<and> reported 20 ([20], [Finite (8042142191733029 / 2 ^ 48)], [Finite (1 / 2 ^ 48)])
     = Some (Finite (8042142191733029 / 2 ^ 48), Finite (1 / 2 ^ 48))"
proof -
  have "calculate_initial_velocities_f64 (lstsq_returning (4021071095866515 / 2 ^ 47)) example_table_3
       (I64 1000) (I64 1)
     = Inr ([20], [Finite (8042142191733029 / 2 ^ 48)], [Finite (1 / 2 ^ 48)])"
    by (simp add: estimator_f64_eval np_std_f64_def f64_eval f64_exponents_example example_table_3_def sqrt_example)
  moreover have "is_f64 (4021071095866515 / 2 ^ 47)"
    by (simp add: f64_eval f64_exponents_example)
  moreover have "load_external_data example_table_3 = Inr example_table_3"
    by (simp add: load_external_data_def example_table_3_def)
  ultimately show ?thesis
    using example_table_3_generated by (simp add: reported_def)
qed

text \<open>
  Claim C7, amended.  Let a table be generated with \<open>noise_level = 0\<close> for at least one
  concentration and one time point, with one or two replicates, and read back from the
  file.  Whatever the least-squares solver is, whenever the estimator returns on this
  table and reports for a concentration a mean that is a finite number, the standard
  deviation it reports for that concentration is exactly \<open>0\<close>.  With three or more
  replicates the standard deviation is \<open>0\<close> in exact arithmetic (lemma
  \<open>noiseless_replicates_zero_std_exact\<close>), but the \<open>float64\<close> mean of equal slopes need not
  be the slope, and the standard deviation is then a few units in the last place of the
  slope.
\<close>

theorem noiseless_replicates_zero_std_f64:
  assumes n: "n_replicates = 1 \<or> n_replicates = 2"
    and Ss: "substrate_concentrations \<noteq> []" and time: "time \<noteq> []"
  shows "\<exists>df g'.
           save_simulated_absorbance_data_np V_max K_m substrate_concentrations time epsilon
             path_length 0 n_replicates g = Inr (df, g')
         \<and> load_external_data df = Inr df
         \<and> (\<forall>out S mean std.
               calculate_initial_velocities_f64 lstsq df epsilon' path_length' = Inr out
               \<and> reported S out = Some (mean, std) \<and> mean \<noteq> NonFinite
               \<longrightarrow> std = Finite 0)"
proof -
  let ?df = "noiseless_table_np V_max K_m substrate_concentrations time epsilon path_length
               n_replicates"
  have n1: "1 \<le> n_replicates" and n2: "nat n_replicates \<le> 2"
    using n by auto
  obtain g' where gen:
    "save_simulated_absorbance_data_np V_max K_m substrate_concentrations time epsilon
       path_length 0 n_replicates g = Inr (?df, g')"
    using save_simulated_absorbance_data_np_noiseless by blast
  have "?df \<noteq> []"
    using n1 time Ss by (rule noiseless_table_np_not_empty)
  then have load: "load_external_data ?df = Inr ?df"
    by (simp add: load_external_data_def)
  have zero: "std = Finite 0"
    if out: "calculate_initial_velocities_f64 lstsq ?df epsilon' path_length' = Inr out"
      and rep: "reported S out = Some (mean, std)" and mean: "mean \<noteq> NonFinite"
    for out S mean std
  proof -
    let ?sub = "filter (\<lambda>x. Substrate_Concentration x = S) ?df"
    have ids: "set (map Replicate ?sub) \<subseteq> set [1..n_replicates]"
      using Replicate_noiseless_table_np by fastforce
    have series: "map (\<lambda>x. (Time x, Absorbance x)) (filter (\<lambda>x. Replicate x = r) ?sub)
        = noiseless_series_np V_max K_m substrate_concentrations time epsilon path_length S"
      if "r \<in> set (map Replicate ?sub)" for r
    proof -
      have "r \<in> set [1..n_replicates]"
        using that ids by blast
      then show ?thesis
        by (rule replicate_series_noiseless_table_np)
    qed
    have "length (unique (map Replicate ?sub)) \<le> nat n_replicates"
      using ids by (rule length_unique_replicates)
    then have two: "length (unique (map Replicate ?sub)) \<le> 2"
      using n2 by linarith
    from out rep series two mean show ?thesis
      by (rule identical_replicates_zero_std_f64)
  qed
  from gen load zero show ?thesis
    by blast
qed

theorem noiseless_replicates_zero_std_f64_witness:
  "((2::int) = 1 \<or> (2::int) = 2) \<and> [I64 20] \<noteq> [] \<and> [0, 1, 2::real] \<noteq> []
   \<and> save_simulated_absorbance_data_np (I64 100) (I64 50) [I64 20] [0, 1, 2] (I64 1000) (I64 1)
       0 2 (\<lambda>i. 1) = Inr (example_table_2, (\<lambda>i. 1))
   \<and> load_external_data example_table_2 = Inr example_table_2
   \<and> calculate_initial_velocities_f64 (lstsq_returning (4021071095866515 / 2 ^ 47)) example_table_2
       (I64 1000) (I64 1)
     = Inr ([20], [Finite (4021071095866515 / 2 ^ 47)], [Finite 0])
   \<and> reported 20 ([20], [Finite (4021071095866515 / 2 ^ 47)], [Finite 0])
     = Some (Finite (4021071095866515 / 2 ^ 47), Finite 0)"
proof -
  let ?lstsq = "lstsq_returning (4021071095866515 / 2 ^ 47)"
  let ?std = "np_std_f64 [Finite (4021071095866515 / 2 ^ 47), Finite (4021071095866515 / 2 ^ 47)]"
  have h: "(2::int) = 1 \<or> (2::int) = 2" "[I64 20] \<noteq> []" "[0, 1, 2::real] \<noteq> []"
    by simp_all
  have calc: "calculate_initial_velocities_f64 ?lstsq example_table_2 (I64 1000) (I64 1)
      = Inr ([20], [Finite (4021071095866515 / 2 ^ 47)], [?std])"
    by (simp add: estimator_f64_eval f64_eval f64_exponents_example example_table_2_def)
  have rep: "reported 20 ([20], [Finite (4021071095866515 / 2 ^ 47)], [?std]) = Some (Finite (4021071095866515 / 2 ^ 47), ?std)"
    by (simp add: reported_def)
  from noiseless_replicates_zero_std_f64 [OF h, of "I64 100" "I64 50" "I64 1000" "I64 1"
      "\<lambda>i. 1" ?lstsq "I64 1000" "I64 1"]
  obtain df g' where
    gen: "save_simulated_absorbance_data_np (I64 100) (I64 50) [I64 20] [0, 1, 2] (I64 1000)
            (I64 1) 0 2 (\<lambda>i. 1) = Inr (df, g')"
    and all: "\<forall>out S mean std.
      calculate_initial_velocities_f64 ?lstsq df (I64 1000) (I64 1) = Inr out
      \<and> reported S out = Some (mean, std) \<and> mean \<noteq> NonFinite \<longrightarrow> std = Finite 0"
    by blast
  have "df = example_table_2"
    using gen by (simp only: example_table_2_generated sum.inject prod.inject)
  then have "\<forall>out S mean std.
      calculate_initial_velocities_f64 ?lstsq example_table_2 (I64 1000) (I64 1) = Inr out
      \<and> reported S out = Some (mean, std) \<and> mean \<noteq> NonFinite \<longrightarrow> std = Finite 0"
    using all by simp
  with calc rep have std: "?std = Finite 0"
    by blast
  have load: "load_external_data example_table_2 = Inr example_table_2"
    by (simp add: load_external_data_def example_table_2_def)
  from h example_table_2_generated load calc rep show ?thesis
    unfolding std by (intro conjI)
qed

section \<open>The simulator notebook without noise\<close>


















section \<open>The plate grid is complete\<close>








end
